theory Spec2Isabelle
  imports Main "HOL-Library.Multiset" "HOL-Library.Product_Lexorder" "HOL-Library.Sublist"
begin

section \<open>The shopping list service of \<^verbatim>\<open>src/backend/server.js\<close>\<close>

text \<open>
  The program is an Express application with seven routes over one PostgreSQL table,
  \<^verbatim>\<open>shopping_items\<close>. Every handler submits one statement (the statistics handler
  three) to \<^verbatim>\<open>pool.query\<close>, with the request's values as bound parameters, and
  shapes a JSON response from the rows it gets back; a rejected promise is caught and
  answered with status 500.

  The embedding follows that structure. The table and its sequence are a record, each
  SQL statement of the source is a function over it, \<^verbatim>\<open>pool.query\<close> looks the
  submitted text up among the statements the store understands, and each handler is a
  function from the pool (before) and the request's values to the response and the pool
  (after).

  What the model takes as given:
  \<^item> the store executes one statement at a time. A handler that submits one statement
    is therefore not disturbed by other requests; the statistics handler awaits three,
    and \<open>get_stats\<close> takes the writes of other requests that the store executes
    between them;
  \<^item> the path parameter \<^verbatim>\<open>:id\<close> is any text, bound as it comes; the store reads it
    as an INTEGER or refuses it (\<open>int4in\<close>);
  \<^item> a body field that is present holds a value of the kind of its column: a string
    for \<^verbatim>\<open>name\<close>, an integer for \<^verbatim>\<open>quantity\<close> (of any size: the store refuses one
    outside the INTEGER range), a boolean for \<^verbatim>\<open>purchased\<close>. A field whose value is
    \<^verbatim>\<open>null\<close> is treated as the absent field is: both are falsy in JavaScript and pg
    binds both as SQL NULL;
  \<^item> the store refuses an integer it cannot read, which the model decides, and it can
    fail for reasons the program does not decide (a lost connection, a name that does
    not fit its column, ...): the pool carries a predicate \<open>fails\<close> for these.
    \<open>rejects\<close> holds of a submission the store does not execute, for either reason;
    the handlers' \<^verbatim>\<open>catch\<close> branches are the model's answer to it.
\<close>

subsection \<open>JSON values and responses\<close>

type_synonym timestamp = int

datatype json =
    JNull
  | JBool bool
  | JNum int
  | JStr string
  | JDate timestamp \<comment> \<open>an instant, serialised as its ISO-8601 text\<close>
  | JArr "json list"
  | JObj "(string \<times> json) list"

record response =
  status :: nat
  body :: json

text \<open>\<^verbatim>\<open>res.json(x)\<close> answers with status 200; \<^verbatim>\<open>res.status(n).json(x)\<close> with \<open>n\<close>.\<close>

definition res_json :: "nat \<Rightarrow> json \<Rightarrow> response" where
  "res_json n x = \<lparr>status = n, body = x\<rparr>"

text \<open>The member of an object under a key; \<open>None\<close> is JavaScript's \<^verbatim>\<open>undefined\<close>.\<close>

fun member :: "json \<Rightarrow> string \<Rightarrow> json option" where
  "member (JObj kvs) k = map_of kvs k"
| "member _ k = None"

subsection \<open>The table\<close>

text \<open>
  \<^verbatim>\<open>CREATE TABLE IF NOT EXISTS shopping_items (
    id SERIAL PRIMARY KEY,
    name VARCHAR(255) NOT NULL,
    quantity INTEGER DEFAULT 1,
    purchased BOOLEAN DEFAULT FALSE,
    created_at TIMESTAMP DEFAULT CURRENT_TIMESTAMP)\<close>

  Only \<^verbatim>\<open>id\<close> and \<^verbatim>\<open>name\<close> are declared NOT NULL: the three other columns can hold
  NULL, which is \<open>None\<close> here.
\<close>

record row =
  id_col :: int
  name_col :: string
  quantity_col :: "int option"
  purchased_col :: "bool option"
  created_at_col :: "timestamp option"

record database =
  shopping_items :: "row list"
  shopping_items_id_seq :: int \<comment> \<open>the next value of the SERIAL sequence\<close>

text \<open>
  \<^verbatim>\<open>initDB\<close>: the table is created when the store does not have it yet (\<open>None\<close>),
  empty and with its sequence at 1; a table that exists is left as it is.
\<close>

definition initDB :: "database option \<Rightarrow> database" where
  "initDB before =
     (case before of
        None \<Rightarrow> \<lparr>shopping_items = [], shopping_items_id_seq = 1\<rparr>
      | Some d \<Rightarrow> d)"

subsection \<open>Integers as the store reads them\<close>

text \<open>
  pg sends every parameter as text, and PostgreSQL reads the text of a parameter that
  stands where an INTEGER is expected with \<^verbatim>\<open>int4in\<close>: white space, an optional
  sign, then decimal digits or, after \<^verbatim>\<open>0x\<close>, \<^verbatim>\<open>0o\<close> or \<^verbatim>\<open>0b\<close>, digits of that
  radix, with single underscores between digits (after a prefix also before the first
  digit), then white space to the end. Any other text is refused, and so is a value
  outside \<open>-2147483648 .. 2147483647\<close>. (The prefixes and the underscore came with
  PostgreSQL 16; an older store refuses them, which is a failure of the store's own.)
\<close>

definition int4 :: "int \<Rightarrow> bool" where
  "int4 i = (- 2147483648 \<le> i \<and> i \<le> 2147483647)"

definition is_white :: "char \<Rightarrow> bool" where
  "is_white c = (of_char c \<in> {9, 10, 11, 12, 13, 32 :: nat})"

definition digit_of :: "char \<Rightarrow> nat option" where
  "digit_of c =
     (let k = of_char c :: nat in
      if 48 \<le> k \<and> k \<le> 57 then Some (k - 48)
      else if 97 \<le> k \<and> k \<le> 122 then Some (k - 87)
      else if 65 \<le> k \<and> k \<le> 90 then Some (k - 55)
      else None)"

definition radix_digit :: "nat \<Rightarrow> char \<Rightarrow> nat option" where
  "radix_digit R c = (case digit_of c of None \<Rightarrow> None | Some k \<Rightarrow> if k < R then Some k else None)"

text \<open>
  The digits: \<open>first\<close> says that no character has been taken yet, \<open>acc\<close> is the value
  so far. The result is the value, whether nothing was taken, and the rest of the text;
  \<open>None\<close> is a misplaced underscore.
\<close>

fun scan_int :: "nat \<Rightarrow> bool \<Rightarrow> nat \<Rightarrow> string \<Rightarrow> (nat \<times> bool \<times> string) option" where
  "scan_int R first acc [] = Some (acc, first, [])"
| "scan_int R first acc (c # cs) =
     (case radix_digit R c of
        Some k \<Rightarrow> scan_int R False (acc * R + k) cs
      | None \<Rightarrow>
          if c = CHR ''_'' then
            (if R = 10 \<and> first then None
             else (case cs of
                     [] \<Rightarrow> None
                   | d # ds \<Rightarrow>
                       (case radix_digit R d of
                          None \<Rightarrow> None
                        | Some k \<Rightarrow> scan_int R False acc cs)))
          else Some (acc, first, c # cs))"

definition strip_minus :: "string \<Rightarrow> bool \<times> string" where
  "strip_minus s =
     (case s of
        [] \<Rightarrow> (False, s)
      | c # cs \<Rightarrow>
          if c = CHR ''-'' then (True, cs) else if c = CHR ''+'' then (False, cs) else (False, s))"

definition strip_radix :: "string \<Rightarrow> nat \<times> string" where
  "strip_radix s =
     (case s of
        a # b # cs \<Rightarrow>
          if a = CHR ''0'' \<and> (b = CHR ''x'' \<or> b = CHR ''X'') then (16, cs)
          else if a = CHR ''0'' \<and> (b = CHR ''o'' \<or> b = CHR ''O'') then (8, cs)
          else if a = CHR ''0'' \<and> (b = CHR ''b'' \<or> b = CHR ''B'') then (2, cs)
          else (10, s)
      | _ \<Rightarrow> (10, s))"

definition int4in :: "string \<Rightarrow> int option" where
  "int4in s =
     (let (neg, s1) = strip_minus (dropWhile is_white s);
          (R, s2) = strip_radix s1
      in case scan_int R True 0 s2 of
           None \<Rightarrow> None
         | Some (n, first, rest) \<Rightarrow>
             if first \<or> dropWhile is_white rest \<noteq> [] then None
             else (let i = (if neg then - int n else int n) in
                   if int4 i then Some i else None))"

subsection \<open>The statements\<close>

datatype param = PNull | PInt int | PText string | PBool bool

datatype result_row =
    ItemRow row
  | CountRow string string \<comment> \<open>the column's alias, and the count as pg delivers a bigint: decimal text\<close>

datatype store_error = Rejected | SyntaxError | BindError | NotNullViolation

definition sql_select_all :: string where
  "sql_select_all = ''SELECT * FROM shopping_items ORDER BY purchased ASC, created_at DESC''"

definition sql_select_by_id :: string where
  "sql_select_by_id = ''SELECT * FROM shopping_items WHERE id = $1''"

definition sql_insert :: string where
  "sql_insert = ''INSERT INTO shopping_items (name, quantity) VALUES ($1, $2) RETURNING *''"

definition sql_update :: string where
  "sql_update = ''UPDATE shopping_items SET name = COALESCE($1, name), quantity = COALESCE($2, quantity), purchased = COALESCE($3, purchased) WHERE id = $4 RETURNING *''"

definition sql_delete :: string where
  "sql_delete = ''DELETE FROM shopping_items WHERE id = $1 RETURNING *''"

definition sql_count_total :: string where
  "sql_count_total = ''SELECT COUNT(*) as total FROM shopping_items''"

definition sql_count_purchased :: string where
  "sql_count_purchased = ''SELECT COUNT(*) as purchased FROM shopping_items WHERE purchased = true''"

definition sql_count_pending :: string where
  "sql_count_pending = ''SELECT COUNT(*) as pending FROM shopping_items WHERE purchased = false''"

text \<open>
  \<^verbatim>\<open>ORDER BY purchased ASC, created_at DESC\<close>. PostgreSQL orders \<open>false\<close> before
  \<open>true\<close>, and puts NULL last in an ascending column and first in a descending one.
  The key below is ascending in exactly that order, compared lexicographically. Rows
  with equal keys come back in an order the store chooses; the model keeps them in
  table order.
\<close>

definition purchased_rank :: "bool option \<Rightarrow> nat" where
  "purchased_rank b = (case b of Some False \<Rightarrow> 0 | Some True \<Rightarrow> 1 | None \<Rightarrow> 2)"

definition created_at_desc :: "timestamp option \<Rightarrow> nat \<times> int" where
  "created_at_desc t = (case t of None \<Rightarrow> (0, 0) | Some u \<Rightarrow> (1, - u))"

definition order_key :: "row \<Rightarrow> nat \<times> nat \<times> int" where
  "order_key r = (purchased_rank (purchased_col r), created_at_desc (created_at_col r))"

definition select_all :: "database \<Rightarrow> row list" where
  "select_all d = sort_key order_key (shopping_items d)"

definition select_by_id :: "int \<Rightarrow> database \<Rightarrow> row list" where
  "select_by_id i d = filter (\<lambda>r. id_col r = i) (shopping_items d)"

text \<open>
  The INSERT names two columns; \<^verbatim>\<open>id\<close>, \<^verbatim>\<open>purchased\<close> and \<^verbatim>\<open>created_at\<close> take their
  defaults: the next sequence value, FALSE, and the store's CURRENT_TIMESTAMP.
\<close>

definition insert_row :: "string \<Rightarrow> int option \<Rightarrow> timestamp \<Rightarrow> database \<Rightarrow> row \<times> database" where
  "insert_row nm qty now d =
     (let r = \<lparr>id_col = shopping_items_id_seq d, name_col = nm, quantity_col = qty,
               purchased_col = Some False, created_at_col = Some now\<rparr>
      in (r, \<lparr>shopping_items = shopping_items d @ [r],
              shopping_items_id_seq = shopping_items_id_seq d + 1\<rparr>))"

text \<open>\<^verbatim>\<open>COALESCE(p, column)\<close>: the parameter unless it is NULL, else the stored value.\<close>

definition set_clause :: "string option \<Rightarrow> int option \<Rightarrow> bool option \<Rightarrow> row \<Rightarrow> row" where
  "set_clause nm qty pur r =
     r\<lparr>name_col := (case nm of None \<Rightarrow> name_col r | Some s \<Rightarrow> s),
       quantity_col := (case qty of None \<Rightarrow> quantity_col r | Some q \<Rightarrow> Some q),
       purchased_col := (case pur of None \<Rightarrow> purchased_col r | Some b \<Rightarrow> Some b)\<rparr>"

definition update_rows ::
  "string option \<Rightarrow> int option \<Rightarrow> bool option \<Rightarrow> int \<Rightarrow> database \<Rightarrow> row list \<times> database" where
  "update_rows nm qty pur i d =
     (map (set_clause nm qty pur) (select_by_id i d),
      d\<lparr>shopping_items :=
           map (\<lambda>r. if id_col r = i then set_clause nm qty pur r else r) (shopping_items d)\<rparr>)"

definition delete_rows :: "int \<Rightarrow> database \<Rightarrow> row list \<times> database" where
  "delete_rows i d =
     (select_by_id i d,
      d\<lparr>shopping_items := filter (\<lambda>r. id_col r \<noteq> i) (shopping_items d)\<rparr>)"

text \<open>
  \<^verbatim>\<open>COUNT(*)\<close> is a bigint, which pg hands to JavaScript as decimal text.
\<close>

definition digit_char :: "nat \<Rightarrow> char" where
  "digit_char k = char_of (48 + k)"

fun decimal :: "nat \<Rightarrow> string" where
  "decimal n = (if n < 10 then [digit_char n] else decimal (n div 10) @ [digit_char (n mod 10)])"

declare decimal.simps [simp del]

definition count_rows :: "string \<Rightarrow> (row \<Rightarrow> bool) \<Rightarrow> database \<Rightarrow> result_row list" where
  "count_rows alias cond d = [CountRow alias (decimal (length (filter cond (shopping_items d))))]"

text \<open>
  Binding: a parameter is NULL or a value of the type its place in the statement asks
  for; any other value is a bind error. (\<open>Some None\<close> is NULL.) Where an INTEGER is
  expected, a text is read with \<open>int4in\<close>, and a number, whose text is its decimal
  digits, is the number itself when it is in the range.
\<close>

fun int_param :: "param \<Rightarrow> int option option" where
  "int_param PNull = Some None"
| "int_param (PInt i) = (if int4 i then Some (Some i) else None)"
| "int_param (PText s) = (case int4in s of None \<Rightarrow> None | Some i \<Rightarrow> Some (Some i))"
| "int_param (PBool b) = None"

fun text_param :: "param \<Rightarrow> string option option" where
  "text_param PNull = Some None"
| "text_param (PText s) = Some (Some s)"
| "text_param _ = None"

fun bool_param :: "param \<Rightarrow> bool option option" where
  "bool_param PNull = Some None"
| "bool_param (PBool b) = Some (Some b)"
| "bool_param _ = None"

text \<open>
  The store: the statements it is ever sent, each with its meaning on the table. A
  comparison with NULL selects no row (\<^verbatim>\<open>id = $1\<close>, \<^verbatim>\<open>purchased = true\<close>); a NULL
  \<^verbatim>\<open>name\<close> violates the column's NOT NULL.
\<close>

definition run_sql ::
  "string \<Rightarrow> param list \<Rightarrow> timestamp \<Rightarrow> database \<Rightarrow> store_error + (result_row list \<times> database)" where
  "run_sql sql ps now d =
     (if sql = sql_select_all then
        (case ps of [] \<Rightarrow> Inr (map ItemRow (select_all d), d) | _ \<Rightarrow> Inl BindError)
      else if sql = sql_select_by_id then
        (case map int_param ps of
           [Some (Some i)] \<Rightarrow> Inr (map ItemRow (select_by_id i d), d)
         | [Some None] \<Rightarrow> Inr ([], d)
         | _ \<Rightarrow> Inl BindError)
      else if sql = sql_insert then
        (case ps of
           [p1, p2] \<Rightarrow>
             (case (text_param p1, int_param p2) of
                (Some (Some nm), Some qty) \<Rightarrow>
                  (let (r, d') = insert_row nm qty now d in Inr ([ItemRow r], d'))
              | (Some None, Some qty) \<Rightarrow> Inl NotNullViolation
              | _ \<Rightarrow> Inl BindError)
         | _ \<Rightarrow> Inl BindError)
      else if sql = sql_update then
        (case ps of
           [p1, p2, p3, p4] \<Rightarrow>
             (case (text_param p1, int_param p2, bool_param p3, int_param p4) of
                (Some nm, Some qty, Some pur, Some (Some i)) \<Rightarrow>
                  (let (rs, d') = update_rows nm qty pur i d in Inr (map ItemRow rs, d'))
              | (Some nm, Some qty, Some pur, Some None) \<Rightarrow> Inr ([], d)
              | _ \<Rightarrow> Inl BindError)
         | _ \<Rightarrow> Inl BindError)
      else if sql = sql_delete then
        (case map int_param ps of
           [Some (Some i)] \<Rightarrow> (let (rs, d') = delete_rows i d in Inr (map ItemRow rs, d'))
         | [Some None] \<Rightarrow> Inr ([], d)
         | _ \<Rightarrow> Inl BindError)
      else if sql = sql_count_total then
        (case ps of [] \<Rightarrow> Inr (count_rows ''total'' (\<lambda>r. True) d, d) | _ \<Rightarrow> Inl BindError)
      else if sql = sql_count_purchased then
        (case ps of
           [] \<Rightarrow> Inr (count_rows ''purchased'' (\<lambda>r. purchased_col r = Some True) d, d)
         | _ \<Rightarrow> Inl BindError)
      else if sql = sql_count_pending then
        (case ps of
           [] \<Rightarrow> Inr (count_rows ''pending'' (\<lambda>r. purchased_col r = Some False) d, d)
         | _ \<Rightarrow> Inl BindError)
      else Inl SyntaxError)"

subsection \<open>The pool\<close>

text \<open>
  \<open>db\<close> is the store's state, \<open>clock\<close> its CURRENT_TIMESTAMP, \<open>fails\<close> the
  submissions that fail for a reason of the store's own, and \<open>submitted\<close> the record of
  every statement text and parameter list handed to \<^verbatim>\<open>pool.query\<close> so far (a
  record for reasoning about the texts; no handler reads it).

  \<^verbatim>\<open>await pool.query(text, values)\<close> either throws (\<open>Inl\<close>) and leaves the table as it
  was, or yields the rows of the statement's result.
\<close>

record pool =
  db :: database
  clock :: timestamp
  fails :: "string \<Rightarrow> param list \<Rightarrow> bool"
  submitted :: "(string \<times> param list) list"

definition pool_query :: "pool \<Rightarrow> string \<Rightarrow> param list \<Rightarrow> (store_error + result_row list) \<times> pool" where
  "pool_query p sql ps =
     (let p' = p\<lparr>submitted := submitted p @ [(sql, ps)]\<rparr> in
      if fails p sql ps then (Inl Rejected, p')
      else (case run_sql sql ps (clock p) (db p) of
              Inl e \<Rightarrow> (Inl e, p')
            | Inr (rs, d) \<Rightarrow> (Inr rs, p'\<lparr>db := d\<rparr>)))"

text \<open>
  The store rejects a submission when it fails on it or refuses to bind or run it:
  these are the submissions for which \<^verbatim>\<open>pool.query\<close> throws.
\<close>

definition rejects :: "pool \<Rightarrow> string \<Rightarrow> param list \<Rightarrow> bool" where
  "rejects p sql ps =
     (fails p sql ps \<or>
      (case run_sql sql ps (clock p) (db p) of Inl e \<Rightarrow> True | Inr x \<Rightarrow> False))"

subsection \<open>Requests\<close>

text \<open>
  \<^verbatim>\<open>req.body\<close> after \<^verbatim>\<open>express.json()\<close>, read through the three names the handlers
  destructure. \<open>None\<close> is a field that is absent (or \<^verbatim>\<open>null\<close>).
\<close>

record req_body =
  name :: "string option"
  quantity :: "int option"
  purchased :: "bool option"

text \<open>\<^verbatim>\<open>!name\<close>: \<^verbatim>\<open>undefined\<close>, \<^verbatim>\<open>null\<close> and the empty string are falsy.\<close>

definition not_name :: "string option \<Rightarrow> bool" where
  "not_name nm = (case nm of None \<Rightarrow> True | Some s \<Rightarrow> s = [])"

text \<open>
  \<^verbatim>\<open>const qty = quantity && quantity > 0 ? quantity : 1\<close>: an absent quantity and 0 are
  falsy, so the conjunction is the comparison only for a non-zero number.
\<close>

definition qty :: "int option \<Rightarrow> int" where
  "qty q = (case q of None \<Rightarrow> 1 | Some n \<Rightarrow> if n \<noteq> 0 \<and> n > 0 then n else 1)"

text \<open>The values array of a query: pg binds \<^verbatim>\<open>undefined\<close> and \<^verbatim>\<open>null\<close> as NULL.\<close>

definition text_value :: "string option \<Rightarrow> param" where
  "text_value v = (case v of None \<Rightarrow> PNull | Some s \<Rightarrow> PText s)"

definition int_value :: "int option \<Rightarrow> param" where
  "int_value v = (case v of None \<Rightarrow> PNull | Some n \<Rightarrow> PInt n)"

definition bool_value :: "bool option \<Rightarrow> param" where
  "bool_value v = (case v of None \<Rightarrow> PNull | Some b \<Rightarrow> PBool b)"

subsection \<open>Rows as JSON\<close>

definition json_of_row :: "row \<Rightarrow> json" where
  "json_of_row r =
     JObj [(''id'', JNum (id_col r)),
           (''name'', JStr (name_col r)),
           (''quantity'', (case quantity_col r of None \<Rightarrow> JNull | Some q \<Rightarrow> JNum q)),
           (''purchased'', (case purchased_col r of None \<Rightarrow> JNull | Some b \<Rightarrow> JBool b)),
           (''created_at'', (case created_at_col r of None \<Rightarrow> JNull | Some t \<Rightarrow> JDate t))]"

fun json_of_result :: "result_row \<Rightarrow> json" where
  "json_of_result (ItemRow r) = json_of_row r"
| "json_of_result (CountRow alias n) = JObj [(alias, JStr n)]"

text \<open>
  \<^verbatim>\<open>result.rows[0]\<close> is \<^verbatim>\<open>undefined\<close> when there is no row, and
  \<^verbatim>\<open>JSON.stringify\<close> leaves a member whose value is \<^verbatim>\<open>undefined\<close> out.
\<close>

definition success_data :: "json option \<Rightarrow> json" where
  "success_data x =
     JObj ((''success'', JBool True) # (case x of None \<Rightarrow> [] | Some v \<Rightarrow> [(''data'', v)]))"

definition failure :: "string \<Rightarrow> json" where
  "failure msg = JObj [(''success'', JBool False), (''error'', JStr msg)]"

definition first_row :: "result_row list \<Rightarrow> json option" where
  "first_row rs = (case rs of [] \<Rightarrow> None | r # _ \<Rightarrow> Some (json_of_result r))"

subsection \<open>\<^verbatim>\<open>parseInt\<close>\<close>

text \<open>
  \<^verbatim>\<open>parseInt(s)\<close> on a string: leading white space is skipped (the ASCII white space
  characters here), then an optional sign, then an optional \<^verbatim>\<open>0x\<close> that selects
  radix 16, then the longest run of digits of the radix. No digit at all gives NaN,
  which is \<open>None\<close>.
\<close>

fun digits_prefix :: "nat \<Rightarrow> string \<Rightarrow> nat list" where
  "digits_prefix R [] = []"
| "digits_prefix R (c # cs) =
     (case digit_of c of
        None \<Rightarrow> []
      | Some k \<Rightarrow> if k < R then k # digits_prefix R cs else [])"

definition strip_sign :: "string \<Rightarrow> int \<times> string" where
  "strip_sign s =
     (case s of
        [] \<Rightarrow> (1, s)
      | c # cs \<Rightarrow> if c = CHR ''-'' then (- 1, cs) else if c = CHR ''+'' then (1, cs) else (1, s))"

definition strip_prefix :: "string \<Rightarrow> nat \<times> string" where
  "strip_prefix s =
     (case s of
        a # b # cs \<Rightarrow> if a = CHR ''0'' \<and> (b = CHR ''x'' \<or> b = CHR ''X'') then (16, cs) else (10, s)
      | _ \<Rightarrow> (10, s))"

definition parseInt :: "string \<Rightarrow> int option" where
  "parseInt s =
     (let (sign, s1) = strip_sign (dropWhile is_white s);
          (R, s2) = strip_prefix s1;
          Z = digits_prefix R s2
      in if Z = [] then None else Some (sign * int (foldl (\<lambda>a k. a * R + k) 0 Z)))"

text \<open>
  \<^verbatim>\<open>parseInt(total.rows[0].total)\<close>: the property of the first row under the alias.
  The property is \<^verbatim>\<open>undefined\<close> under another alias, and on a row of the items table
  none of the three aliases names a number or a string; \<^verbatim>\<open>parseInt\<close> is NaN for
  these, and \<^verbatim>\<open>JSON.stringify\<close> writes NaN as \<^verbatim>\<open>null\<close>.
\<close>

fun parseInt_column :: "string \<Rightarrow> result_row \<Rightarrow> json" where
  "parseInt_column k (CountRow alias n) =
     (if alias = k then (case parseInt n of None \<Rightarrow> JNull | Some v \<Rightarrow> JNum v) else JNull)"
| "parseInt_column k (ItemRow r) = JNull"

subsection \<open>The handlers\<close>

text \<open>\<^verbatim>\<open>GET /health\<close>; \<open>now\<close> is what \<^verbatim>\<open>new Date()\<close> reads.\<close>

definition get_health :: "timestamp \<Rightarrow> response" where
  "get_health now = res_json 200 (JObj [(''status'', JStr ''ok''), (''timestamp'', JDate now)])"

text \<open>\<^verbatim>\<open>GET /api/items\<close>\<close>

definition get_items :: "pool \<Rightarrow> response \<times> pool" where
  "get_items p =
     (case pool_query p sql_select_all [] of
        (Inl err, p') \<Rightarrow> (res_json 500 (failure ''Error fetching items''), p')
      | (Inr rows, p') \<Rightarrow>
          (res_json 200 (success_data (Some (JArr (map json_of_result rows)))), p'))"

text \<open>
  \<^verbatim>\<open>GET /api/items/:id\<close>; \<open>i\<close> is \<^verbatim>\<open>req.params.id\<close>, the text of the path segment,
  which the handler binds as it is.
\<close>

definition get_item :: "string \<Rightarrow> pool \<Rightarrow> response \<times> pool" where
  "get_item i p =
     (case pool_query p sql_select_by_id [PText i] of
        (Inl err, p') \<Rightarrow> (res_json 500 (failure ''Error fetching item''), p')
      | (Inr rows, p') \<Rightarrow>
          if length rows = 0 then (res_json 404 (failure ''Item not found''), p')
          else (res_json 200 (success_data (first_row rows)), p'))"

text \<open>\<^verbatim>\<open>POST /api/items\<close>\<close>

definition post_items :: "req_body \<Rightarrow> pool \<Rightarrow> response \<times> pool" where
  "post_items b p =
     (if not_name (name b) then (res_json 400 (failure ''Item name is required''), p)
      else
        (case pool_query p sql_insert [text_value (name b), PInt (qty (quantity b))] of
           (Inl err, p') \<Rightarrow> (res_json 500 (failure ''Error creating item''), p')
         | (Inr rows, p') \<Rightarrow> (res_json 201 (success_data (first_row rows)), p')))"

text \<open>\<^verbatim>\<open>PUT /api/items/:id\<close>\<close>

definition put_item :: "string \<Rightarrow> req_body \<Rightarrow> pool \<Rightarrow> response \<times> pool" where
  "put_item i b p =
     (case pool_query p sql_update
             [text_value (name b), int_value (quantity b), bool_value (purchased b), PText i] of
        (Inl err, p') \<Rightarrow> (res_json 500 (failure ''Error updating item''), p')
      | (Inr rows, p') \<Rightarrow>
          if length rows = 0 then (res_json 404 (failure ''Item not found''), p')
          else (res_json 200 (success_data (first_row rows)), p'))"

text \<open>\<^verbatim>\<open>DELETE /api/items/:id\<close>\<close>

definition delete_item :: "string \<Rightarrow> pool \<Rightarrow> response \<times> pool" where
  "delete_item i p =
     (case pool_query p sql_delete [PText i] of
        (Inl err, p') \<Rightarrow> (res_json 500 (failure ''Error deleting item''), p')
      | (Inr rows, p') \<Rightarrow>
          if length rows = 0 then (res_json 404 (failure ''Item not found''), p')
          else (res_json 200 (JObj [(''success'', JBool True), (''message'', JStr ''Item deleted'')]), p'))"

text \<open>
  \<^verbatim>\<open>GET /api/stats\<close>: three statements, each awaited before the next is submitted and
  none in a transaction; the first that fails ends the handler. Reading
  \<^verbatim>\<open>rows[0].total\<close> of an empty result throws a TypeError, which the same
  \<^verbatim>\<open>catch\<close> answers.

  While the handler awaits, the store executes what other requests submit. Only their
  writes matter to the counts: \<open>ws1\<close> are the writes of other requests executed
  between the first COUNT and the second, \<open>ws2\<close> those between the second and the
  third, each performed by its own handler.
\<close>

datatype other_write = Create req_body | Update string req_body | Delete string

fun perform :: "other_write \<Rightarrow> pool \<Rightarrow> pool" where
  "perform (Create b) p = snd (post_items b p)"
| "perform (Update i b) p = snd (put_item i b p)"
| "perform (Delete i) p = snd (delete_item i p)"

definition others :: "other_write list \<Rightarrow> pool \<Rightarrow> pool" where
  "others ws p = fold perform ws p"

definition stats_json :: "result_row list \<Rightarrow> result_row list \<Rightarrow> result_row list \<Rightarrow> json option" where
  "stats_json total_res purchased_res pending_res =
     (case (total_res, purchased_res, pending_res) of
        (t # _, u # _, v # _) \<Rightarrow>
          Some (JObj [(''total'', parseInt_column ''total'' t),
                      (''purchased'', parseInt_column ''purchased'' u),
                      (''pending'', parseInt_column ''pending'' v)])
      | _ \<Rightarrow> None)"

definition get_stats :: "other_write list \<Rightarrow> other_write list \<Rightarrow> pool \<Rightarrow> response \<times> pool" where
  "get_stats ws1 ws2 p =
     (case pool_query p sql_count_total [] of
        (Inl err, p1) \<Rightarrow> (res_json 500 (failure ''Error fetching stats''), p1)
      | (Inr total_res, p1) \<Rightarrow>
     (case pool_query (others ws1 p1) sql_count_purchased [] of
        (Inl err, p2) \<Rightarrow> (res_json 500 (failure ''Error fetching stats''), p2)
      | (Inr purchased_res, p2) \<Rightarrow>
     (case pool_query (others ws2 p2) sql_count_pending [] of
        (Inl err, p3) \<Rightarrow> (res_json 500 (failure ''Error fetching stats''), p3)
      | (Inr pending_res, p3) \<Rightarrow>
     (case stats_json total_res purchased_res pending_res of
        None \<Rightarrow> (res_json 500 (failure ''Error fetching stats''), p3)
      | Some data \<Rightarrow> (res_json 200 (success_data (Some data)), p3)))))"

subsection \<open>The router\<close>

text \<open>
  \<open>handle\<close> is a request handled with no statement of another request between its
  own, which for every route but the statistics is all there is.
\<close>

datatype route =
    Health | ListItems | GetItem | CreateItem | UpdateItem | DeleteItem | Stats

datatype request =
    GET_health
  | GET_items
  | GET_item string
  | POST_items req_body
  | PUT_item string req_body
  | DELETE_item string
  | GET_stats

fun route_of :: "request \<Rightarrow> route" where
  "route_of GET_health = Health"
| "route_of GET_items = ListItems"
| "route_of (GET_item i) = GetItem"
| "route_of (POST_items b) = CreateItem"
| "route_of (PUT_item i b) = UpdateItem"
| "route_of (DELETE_item i) = DeleteItem"
| "route_of GET_stats = Stats"

fun handle :: "timestamp \<Rightarrow> request \<Rightarrow> pool \<Rightarrow> response \<times> pool" where
  "handle now GET_health p = (get_health now, p)"
| "handle now GET_items p = get_items p"
| "handle now (GET_item i) p = get_item i p"
| "handle now (POST_items b) p = post_items b p"
| "handle now (PUT_item i b) p = put_item i b p"
| "handle now (DELETE_item i) p = delete_item i p"
| "handle now GET_stats p = get_stats [] [] p"

text \<open>
  The states of the table the service can bring about: it starts from the table
  \<^verbatim>\<open>initDB\<close> creates, and every request is handled by a pool over the state reached so
  far, whatever the clocks read and whatever the store fails on. (The writes that land
  between the statements of the statistics handler are requests of this kind, so they
  bring about no other table.)
\<close>

inductive reachable :: "database \<Rightarrow> bool" where
  start: "reachable (initDB None)"
| request: "reachable (db p) \<Longrightarrow> reachable (db (snd (handle now r p)))"

text \<open>What one statement can do to the table: nothing, or one of the three writes.\<close>

inductive effect :: "database \<Rightarrow> database \<Rightarrow> bool" where
  same: "effect d d"
| inserted: "effect d (snd (insert_row nm q now d))"
| updated: "effect d (snd (update_rows nm q b i d))"
| deleted: "effect d (snd (delete_rows i d))"

subsection \<open>The statements of a route, and the envelope\<close>

text \<open>
  The statements a route submits, in the order it submits them: read off the handlers,
  one list for each route and none of them a function of the request.
\<close>

fun statements :: "route \<Rightarrow> string list" where
  "statements Health = []"
| "statements ListItems = [sql_select_all]"
| "statements GetItem = [sql_select_by_id]"
| "statements CreateItem = [sql_insert]"
| "statements UpdateItem = [sql_update]"
| "statements DeleteItem = [sql_delete]"
| "statements Stats = [sql_count_total, sql_count_purchased, sql_count_pending]"

text \<open>
  The envelope of the specification: an object with a boolean \<^verbatim>\<open>success\<close> member and
  a \<^verbatim>\<open>data\<close>, an \<^verbatim>\<open>error\<close> or a \<^verbatim>\<open>message\<close> member beside it.
\<close>

definition has_member :: "json \<Rightarrow> string \<Rightarrow> bool" where
  "has_member j k = (case member j k of None \<Rightarrow> False | Some v \<Rightarrow> True)"

definition enveloped :: "json \<Rightarrow> bool" where
  "enveloped j =
     ((case member j ''success'' of Some (JBool flag) \<Rightarrow> True | _ \<Rightarrow> False) \<and>
      (has_member j ''data'' \<or> has_member j ''error'' \<or> has_member j ''message''))"

subsection \<open>Pools and tables used as examples\<close>

text \<open>A pool over the table as \<^verbatim>\<open>initDB\<close> leaves it, with a store that never fails.\<close>

definition fresh_pool :: pool where
  "fresh_pool =
     \<lparr>db = initDB None, clock = 100, fails = (\<lambda>sql ps. False), submitted = []\<rparr>"

definition milk :: row where
  "milk = \<lparr>id_col = 1, name_col = ''Milk'', quantity_col = Some 2,
           purchased_col = Some True, created_at_col = Some 100\<rparr>"

definition bread :: row where
  "bread = \<lparr>id_col = 2, name_col = ''Bread'', quantity_col = Some 1,
            purchased_col = Some False, created_at_col = Some 200\<rparr>"

text \<open>Milk was created first, then bread, then milk was marked as purchased.\<close>

definition sample_pool :: pool where
  "sample_pool =
     \<lparr>db = \<lparr>shopping_items = [milk, bread], shopping_items_id_seq = 3\<rparr>,
      clock = 300, fails = (\<lambda>sql ps. False), submitted = []\<rparr>"

definition eggs :: req_body where
  "eggs = \<lparr>name = Some ''Eggs'', quantity = Some 12, purchased = None\<rparr>"

section \<open>Properties\<close>

subsection \<open>The store executes the statements of the source\<close>

lemmas sql_defs = sql_select_all_def sql_select_by_id_def sql_insert_def sql_update_def
  sql_delete_def sql_count_total_def sql_count_purchased_def sql_count_pending_def

lemma run_select_all:
  "run_sql sql_select_all [] now d = Inr (map ItemRow (select_all d), d)"
  by (simp add: run_sql_def)

lemma run_select_by_id:
  "run_sql sql_select_by_id [PText s] now d =
     (case int4in s of
        None \<Rightarrow> Inl BindError
      | Some i \<Rightarrow> Inr (map ItemRow (select_by_id i d), d))"
  by (simp add: run_sql_def sql_defs split: option.splits)

lemma run_insert:
  "run_sql sql_insert [PText nm, PInt q] now d =
     (if int4 q
      then Inr ([ItemRow (fst (insert_row nm (Some q) now d))],
                snd (insert_row nm (Some q) now d))
      else Inl BindError)"
  by (simp add: run_sql_def sql_defs split_beta)

lemma run_update:
  "run_sql sql_update [text_value nm, int_value q, bool_value b, PText s] now d =
     (case int4in s of
        None \<Rightarrow> Inl BindError
      | Some i \<Rightarrow>
          if (case q of None \<Rightarrow> True | Some n \<Rightarrow> int4 n)
          then Inr (map ItemRow (fst (update_rows nm q b i d)), snd (update_rows nm q b i d))
          else Inl BindError)"
  by (cases nm; cases q; cases b)
    (simp_all add: run_sql_def sql_defs split_beta text_value_def int_value_def bool_value_def
      split: option.splits)

lemma run_delete:
  "run_sql sql_delete [PText s] now d =
     (case int4in s of
        None \<Rightarrow> Inl BindError
      | Some i \<Rightarrow> Inr (map ItemRow (fst (delete_rows i d)), snd (delete_rows i d)))"
  by (simp add: run_sql_def sql_defs split_beta split: option.splits)

lemma run_count_total:
  "run_sql sql_count_total [] now d = Inr (count_rows ''total'' (\<lambda>r. True) d, d)"
  by (simp add: run_sql_def sql_defs)

lemma run_count_purchased:
  "run_sql sql_count_purchased [] now d =
     Inr (count_rows ''purchased'' (\<lambda>r. purchased_col r = Some True) d, d)"
  by (simp add: run_sql_def sql_defs)

lemma run_count_pending:
  "run_sql sql_count_pending [] now d =
     Inr (count_rows ''pending'' (\<lambda>r. purchased_col r = Some False) d, d)"
  by (simp add: run_sql_def sql_defs)

lemmas run_sql_simps = run_select_all run_select_by_id run_insert run_update run_delete
  run_count_total run_count_purchased run_count_pending

lemma run_sql_effect: "run_sql sql ps now d = Inr (rs, d') \<Longrightarrow> effect d d'"
  unfolding run_sql_def
  by (auto split: if_splits list.splits option.splits prod.splits simp: effect.same)
    (metis effect.intros snd_conv)+

lemma pool_query_effect: "effect (db p) (db (snd (pool_query p sql ps)))"
  by (auto simp: pool_query_def Let_def effect.same split: sum.splits dest: run_sql_effect)

lemma pool_query_fails [simp]: "fails (snd (pool_query p sql ps)) = fails p"
  by (auto simp: pool_query_def Let_def split: sum.splits)

lemma pool_query_clock [simp]: "clock (snd (pool_query p sql ps)) = clock p"
  by (auto simp: pool_query_def Let_def split: sum.splits)

lemma pool_query_submitted:
  "submitted (snd (pool_query p sql ps)) = submitted p @ [(sql, ps)]"
  by (auto simp: pool_query_def Let_def split: sum.splits)

lemma pool_query_failed:
  "fails p sql ps \<Longrightarrow>
     pool_query p sql ps = (Inl Rejected, p\<lparr>submitted := submitted p @ [(sql, ps)]\<rparr>)"
  by (simp add: pool_query_def)

lemma pool_query_executed:
  "\<not> fails p sql ps \<Longrightarrow> run_sql sql ps (clock p) (db p) = Inr (rs, d) \<Longrightarrow>
     pool_query p sql ps = (Inr rs, p\<lparr>submitted := submitted p @ [(sql, ps)], db := d\<rparr>)"
  by (simp add: pool_query_def)

text \<open>\<open>rejects\<close> is the case in which \<^verbatim>\<open>pool.query\<close> throws.\<close>

lemma rejects_iff_throws: "rejects p sql ps \<longleftrightarrow> (\<exists>e. fst (pool_query p sql ps) = Inl e)"
  by (auto simp: rejects_def pool_query_def Let_def split: sum.splits)

lemma rejects_count [simp]:
  "rejects p sql_count_total [] = fails p sql_count_total []"
  "rejects p sql_count_purchased [] = fails p sql_count_purchased []"
  "rejects p sql_count_pending [] = fails p sql_count_pending []"
  "rejects p sql_select_all [] = fails p sql_select_all []"
  by (simp_all add: rejects_def run_sql_simps)

lemma rejects_insert:
  "rejects p sql_insert [PText nm, PInt q] \<longleftrightarrow> fails p sql_insert [PText nm, PInt q] \<or> \<not> int4 q"
  by (simp add: rejects_def run_insert)

lemma rejects_update:
  "rejects p sql_update [text_value nm, int_value q, bool_value b, PText s] \<longleftrightarrow>
     fails p sql_update [text_value nm, int_value q, bool_value b, PText s] \<or>
     int4in s = None \<or> (\<exists>n. q = Some n \<and> \<not> int4 n)"
  by (auto simp: rejects_def run_update split: option.splits)

lemma rejects_by_id:
  "rejects p sql_select_by_id [PText s] \<longleftrightarrow>
     fails p sql_select_by_id [PText s] \<or> int4in s = None"
  "rejects p sql_delete [PText s] \<longleftrightarrow> fails p sql_delete [PText s] \<or> int4in s = None"
  by (auto simp: rejects_def run_select_by_id run_delete split: option.splits)

lemmas handler_defs = get_items_def get_item_def post_items_def put_item_def delete_item_def
  get_stats_def get_health_def pool_query_def res_json_def failure_def success_data_def
  first_row_def not_name_def qty_def Let_def

lemmas value_defs = text_value_def int_value_def bool_value_def

lemmas store_defs = select_all_def select_by_id_def insert_row_def update_rows_def
  delete_rows_def set_clause_def count_rows_def initDB_def

lemmas int4in_defs = int4in_def strip_minus_def strip_radix_def radix_digit_def digit_of_def
  is_white_def int4_def

lemmas example_defs = fresh_pool_def sample_pool_def milk_def bread_def eggs_def

subsection \<open>Creating an item\<close>

text \<open>
  Claim C4. A create request whose name is absent or empty is answered with status 400
  and \<^verbatim>\<open>success: false\<close>, and the store is as it was: no statement is submitted, so no
  row is inserted (the pool after the request is the pool before it).
\<close>

theorem create_without_name_is_400:
  "name b = None \<or> name b = Some [] \<Longrightarrow>
     post_items b p =
       (\<lparr>status = 400,
         body = JObj [(''success'', JBool False), (''error'', JStr ''Item name is required'')]\<rparr>,
        p)"
proof -
  assume "name b = None \<or> name b = Some []"
  then have "not_name (name b)"
    by (auto simp: not_name_def)
  then show ?thesis
    by (simp add: post_items_def res_json_def failure_def)
qed

theorem create_without_name_is_400_witness:
  "post_items \<lparr>name = Some [], quantity = Some 2, purchased = None\<rparr> sample_pool =
     (\<lparr>status = 400,
       body = JObj [(''success'', JBool False), (''error'', JStr ''Item name is required'')]\<rparr>,
      sample_pool) \<and>
   shopping_items (db (snd (post_items \<lparr>name = Some [], quantity = Some 2, purchased = None\<rparr>
      sample_pool))) = [milk, bread]"
  using create_without_name_is_400
    [of "\<lparr>name = Some [], quantity = Some 2, purchased = None\<rparr>" sample_pool]
  by (simp add: sample_pool_def)

text \<open>
  Claim C3. A create request with a non-empty name is never answered with the
  validation error, whatever its quantity. When the store executes the INSERT, the
  answer is 201 with the inserted row, one row is appended to the table, and its
  quantity is the supplied one if that is present and greater than zero, and 1 if the
  quantity is absent, zero or negative.
\<close>

theorem create_effective_quantity:
  "name b = Some nm \<Longrightarrow> nm \<noteq> [] \<Longrightarrow>
     status (fst (post_items b p)) \<noteq> 400 \<and>
     (\<not> rejects p sql_insert [PText nm, PInt (qty (quantity b))] \<longrightarrow>
        (let r = \<lparr>id_col = shopping_items_id_seq (db p), name_col = nm,
                   quantity_col =
                     Some (case quantity b of None \<Rightarrow> 1 | Some n \<Rightarrow> if 0 < n then n else 1),
                   purchased_col = Some False, created_at_col = Some (clock p)\<rparr>
         in fst (post_items b p) =
              \<lparr>status = 201, body = JObj [(''success'', JBool True), (''data'', json_of_row r)]\<rparr> \<and>
            shopping_items (db (snd (post_items b p))) = shopping_items (db p) @ [r]))"
proof -
  assume nm: "name b = Some nm" "nm \<noteq> []"
  then have named: "\<not> not_name (name b)"
    by (simp add: not_name_def)
  have effective:
    "qty (quantity b) = (case quantity b of None \<Rightarrow> 1 | Some n \<Rightarrow> if 0 < n then n else 1)"
    by (auto simp: qty_def split: option.splits)
  from named have "status (fst (post_items b p)) \<noteq> 400"
    by (simp add: post_items_def res_json_def split: prod.splits sum.splits)
  moreover have "fst (post_items b p) =
        \<lparr>status = 201,
          body = JObj [(''success'', JBool True),
            (''data'', json_of_row (fst (insert_row nm (Some (qty (quantity b))) (clock p) (db p))))]\<rparr> \<and>
      db (snd (post_items b p)) = snd (insert_row nm (Some (qty (quantity b))) (clock p) (db p))"
    if "\<not> rejects p sql_insert [PText nm, PInt (qty (quantity b))]"
  proof -
    from that have "\<not> fails p sql_insert [PText nm, PInt (qty (quantity b))]"
      and "int4 (qty (quantity b))"
      by (simp_all add: rejects_insert)
    with named nm(1) show ?thesis
      by (simp add: post_items_def pool_query_def Let_def text_value_def run_insert res_json_def
          success_data_def first_row_def)
  qed
  ultimately show ?thesis
    by (simp add: effective insert_row_def Let_def)
qed

theorem create_effective_quantity_witness:
  "map quantity_col (shopping_items (db (snd (post_items
       \<lparr>name = Some ''Eggs'', quantity = Some (- 3), purchased = None\<rparr> sample_pool)))) =
     [Some 2, Some 1, Some 1] \<and>
   map quantity_col (shopping_items (db (snd (post_items
       \<lparr>name = Some ''Eggs'', quantity = Some 12, purchased = None\<rparr> sample_pool)))) =
     [Some 2, Some 1, Some 12] \<and>
   status (fst (post_items \<lparr>name = Some ''Eggs'', quantity = Some (- 3), purchased = None\<rparr>
       sample_pool)) = 201"
  using create_effective_quantity
      [of "\<lparr>name = Some ''Eggs'', quantity = Some (- 3), purchased = None\<rparr>" "''Eggs''" sample_pool]
    create_effective_quantity
      [of "\<lparr>name = Some ''Eggs'', quantity = Some 12, purchased = None\<rparr>" "''Eggs''" sample_pool]
  by (simp add: sample_pool_def milk_def bread_def Let_def rejects_insert int4_def qty_def)

text \<open>
  Claim C10. The create handler reads only \<^verbatim>\<open>name\<close> and \<^verbatim>\<open>quantity\<close>: changing the
  body's \<^verbatim>\<open>purchased\<close> field changes neither the response nor the pool. Whenever the
  answer is 201 exactly one row was appended, it is the row of the response, and its
  \<^verbatim>\<open>purchased\<close> is false; with any other answer the table is as it was.
\<close>

theorem create_ignores_purchased:
  "post_items (b\<lparr>purchased := x\<rparr>) p = post_items b p \<and>
   (status (fst (post_items b p)) = 201 \<longrightarrow>
      (\<exists>r. shopping_items (db (snd (post_items b p))) = shopping_items (db p) @ [r] \<and>
           purchased_col r = Some False \<and>
           body (fst (post_items b p)) =
             JObj [(''success'', JBool True), (''data'', json_of_row r)])) \<and>
   (status (fst (post_items b p)) \<noteq> 201 \<longrightarrow> db (snd (post_items b p)) = db p)"
proof (intro conjI)
  show "post_items (b\<lparr>purchased := x\<rparr>) p = post_items b p"
    by (simp add: post_items_def)
next
  show "status (fst (post_items b p)) = 201 \<longrightarrow>
      (\<exists>r. shopping_items (db (snd (post_items b p))) = shopping_items (db p) @ [r] \<and>
           purchased_col r = Some False \<and>
           body (fst (post_items b p)) =
             JObj [(''success'', JBool True), (''data'', json_of_row r)])"
    by (cases "name b")
      (auto simp: post_items_def not_name_def res_json_def pool_query_def run_insert
        insert_row_def text_value_def Let_def success_data_def first_row_def failure_def
        split: if_splits)
next
  show "status (fst (post_items b p)) \<noteq> 201 \<longrightarrow> db (snd (post_items b p)) = db p"
    by (cases "name b")
      (auto simp: post_items_def not_name_def res_json_def pool_query_def run_insert
        text_value_def Let_def failure_def split: if_splits)
qed

theorem create_ignores_purchased_witness:
  "status (fst (post_items \<lparr>name = Some ''Eggs'', quantity = None, purchased = Some True\<rparr>
      sample_pool)) = 201 \<and>
   map purchased_col (shopping_items (db (snd (post_items
      \<lparr>name = Some ''Eggs'', quantity = None, purchased = Some True\<rparr> sample_pool)))) =
     [Some True, Some False, Some False] \<and>
   member (body (fst (post_items \<lparr>name = Some ''Eggs'', quantity = None, purchased = Some True\<rparr>
      sample_pool))) ''data'' =
     Some (JObj [(''id'', JNum 3), (''name'', JStr ''Eggs''), (''quantity'', JNum 1),
                 (''purchased'', JBool False), (''created_at'', JDate 300)])"
  using create_ignores_purchased
    [where b = "\<lparr>name = Some ''Eggs'', quantity = None, purchased = Some True\<rparr>"
       and x = None and p = sample_pool]
  by (simp add: handler_defs value_defs run_sql_simps store_defs example_defs json_of_row_def
      int4_def)

subsection \<open>An id that matches no row\<close>

lemma select_by_id_none:
  "\<forall>r\<in>set (shopping_items d). id_col r \<noteq> i \<Longrightarrow> select_by_id i d = []"
  by (auto simp: select_by_id_def filter_empty_conv)

lemma update_rows_none:
  "\<forall>r\<in>set (shopping_items d). id_col r \<noteq> i \<Longrightarrow> update_rows nm q b i d = ([], d)"
  by (simp add: update_rows_def select_by_id_none map_idI)

lemma delete_rows_none:
  "\<forall>r\<in>set (shopping_items d). id_col r \<noteq> i \<Longrightarrow> delete_rows i d = ([], d)"
  by (simp add: delete_rows_def select_by_id_none filter_id_conv)

text \<open>
  Claim C6, as stated, fails: the handlers bind the path's id and the body's values as
  they come, and the store refuses what it cannot read as an INTEGER. On the table of
  the example, where the ids are 1 and 2, \<^verbatim>\<open>GET /api/items/abc\<close>,
  \<^verbatim>\<open>DELETE /api/items/2147483648\<close> and \<^verbatim>\<open>PUT /api/items/7\<close> with
  \<^verbatim>\<open>{"quantity": 2147483648}\<close> are each answered with 500, not 404, by a store that
  does not fail otherwise.
\<close>

theorem missing_id_is_500:
  "map id_col (shopping_items (db sample_pool)) = [1, 2] \<and>
   fst (get_item ''abc'' sample_pool) =
     \<lparr>status = 500,
       body = JObj [(''success'', JBool False), (''error'', JStr ''Error fetching item'')]\<rparr> \<and>
   fst (delete_item ''2147483648'' sample_pool) =
     \<lparr>status = 500,
       body = JObj [(''success'', JBool False), (''error'', JStr ''Error deleting item'')]\<rparr> \<and>
   fst (put_item ''7'' \<lparr>name = None, quantity = Some 2147483648, purchased = None\<rparr>
      sample_pool) =
     \<lparr>status = 500,
       body = JObj [(''success'', JBool False), (''error'', JStr ''Error updating item'')]\<rparr>"
  by (simp add: handler_defs run_sql_simps int4in_defs example_defs)

text \<open>
  Claim C6, amended. When the id of the path matches no stored row (the store reads it
  as no row's id, or does not read it as an INTEGER at all), the table is the same
  after GET, PUT (whatever its body) and DELETE on \<^verbatim>\<open>/api/items/:id\<close>. The answer is
  404 with \<^verbatim>\<open>success: false\<close> when the store reads the id as an INTEGER, for PUT reads
  the body's quantity, if there is one, as an INTEGER too, and does not fail on the
  statement; in every other case it is 500 with \<^verbatim>\<open>success: false\<close>.
\<close>

theorem missing_id_is_404_when_read:
  assumes "\<forall>r\<in>set (shopping_items (db p)). int4in s \<noteq> Some (id_col r)"
  shows "fst (get_item s p) =
           (if int4in s = None \<or> fails p sql_select_by_id [PText s]
            then \<lparr>status = 500,
                   body = JObj [(''success'', JBool False),
                                (''error'', JStr ''Error fetching item'')]\<rparr>
            else \<lparr>status = 404,
                   body = JObj [(''success'', JBool False),
                                (''error'', JStr ''Item not found'')]\<rparr>) \<and>
         db (snd (get_item s p)) = db p \<and>
         fst (put_item s b p) =
           (if int4in s = None \<or> (case quantity b of None \<Rightarrow> False | Some n \<Rightarrow> \<not> int4 n) \<or>
               fails p sql_update
                 [text_value (name b), int_value (quantity b), bool_value (purchased b), PText s]
            then \<lparr>status = 500,
                   body = JObj [(''success'', JBool False),
                                (''error'', JStr ''Error updating item'')]\<rparr>
            else \<lparr>status = 404,
                   body = JObj [(''success'', JBool False),
                                (''error'', JStr ''Item not found'')]\<rparr>) \<and>
         db (snd (put_item s b p)) = db p \<and>
         fst (delete_item s p) =
           (if int4in s = None \<or> fails p sql_delete [PText s]
            then \<lparr>status = 500,
                   body = JObj [(''success'', JBool False),
                                (''error'', JStr ''Error deleting item'')]\<rparr>
            else \<lparr>status = 404,
                   body = JObj [(''success'', JBool False),
                                (''error'', JStr ''Item not found'')]\<rparr>) \<and>
         db (snd (delete_item s p)) = db p"
proof (cases "int4in s")
  case None
  then show ?thesis
    by (simp add: Let_def get_item_def put_item_def delete_item_def pool_query_def
        run_select_by_id run_update run_delete res_json_def failure_def)
next
  case (Some i)
  with assms have none: "\<forall>r\<in>set (shopping_items (db p)). id_col r \<noteq> i"
    by auto
  have g: "fst (get_item s p) =
           (if fails p sql_select_by_id [PText s]
            then res_json 500 (failure ''Error fetching item'')
            else res_json 404 (failure ''Item not found'')) \<and>
         db (snd (get_item s p)) = db p"
    using Some none
    by (simp add: Let_def get_item_def pool_query_def run_select_by_id select_by_id_none)
  have u: "fst (put_item s b p) =
           (if (case quantity b of None \<Rightarrow> False | Some n \<Rightarrow> \<not> int4 n) \<or>
               fails p sql_update
                 [text_value (name b), int_value (quantity b), bool_value (purchased b), PText s]
            then res_json 500 (failure ''Error updating item'')
            else res_json 404 (failure ''Item not found'')) \<and>
         db (snd (put_item s b p)) = db p"
    using Some none
    by (cases "quantity b")
      (simp_all add: Let_def put_item_def pool_query_def run_update update_rows_none)
  have d: "fst (delete_item s p) =
           (if fails p sql_delete [PText s]
            then res_json 500 (failure ''Error deleting item'')
            else res_json 404 (failure ''Item not found'')) \<and>
         db (snd (delete_item s p)) = db p"
    using Some none
    by (simp add: Let_def delete_item_def pool_query_def run_delete delete_rows_none)
  from g u d Some show ?thesis
    by (simp add: res_json_def failure_def)
qed

theorem missing_id_is_404_when_read_witness:
  "map id_col (shopping_items (db sample_pool)) = [1, 2] \<and>
   int4in ''7'' = Some 7 \<and>
   map (status \<circ> fst)
     [get_item ''7'' sample_pool,
      put_item ''7'' \<lparr>name = Some ''Tea'', quantity = Some 4, purchased = Some True\<rparr> sample_pool,
      delete_item ''7'' sample_pool] = [404, 404, 404] \<and>
   map (db \<circ> snd)
     [get_item ''7'' sample_pool,
      put_item ''7'' \<lparr>name = Some ''Tea'', quantity = Some 4, purchased = Some True\<rparr> sample_pool,
      delete_item ''7'' sample_pool] = [db sample_pool, db sample_pool, db sample_pool]"
proof -
  have seven: "int4in ''7'' = Some 7"
    by (simp add: int4in_defs)
  have "\<forall>r\<in>set (shopping_items (db sample_pool)). int4in ''7'' \<noteq> Some (id_col r)"
    by (simp add: seven example_defs)
  from missing_id_is_404_when_read
      [OF this, of "\<lparr>name = Some ''Tea'', quantity = Some 4, purchased = Some True\<rparr>"]
  show ?thesis
    by (simp add: seven example_defs int4_def)
qed

subsection \<open>Updating an item\<close>

lemma put_item_table:
  "shopping_items (db (snd (put_item s b p))) = shopping_items (db p) \<or>
   (\<exists>i. int4in s = Some i \<and>
      shopping_items (db (snd (put_item s b p))) =
        map (\<lambda>r. if id_col r = i then set_clause (name b) (quantity b) (purchased b) r else r)
          (shopping_items (db p)))"
  by (cases "int4in s")
    (simp_all add: Let_def put_item_def pool_query_def run_update update_rows_def)

lemma set_clause_frame:
  "id_col (set_clause nm q pur r) = id_col r"
  "created_at_col (set_clause nm q pur r) = created_at_col r"
  "name_col (set_clause None q pur r) = name_col r"
  "quantity_col (set_clause nm None pur r) = quantity_col r"
  "purchased_col (set_clause nm q None r) = purchased_col r"
  by (simp_all add: set_clause_def)

lemma put_item_executed:
  assumes "int4in s = Some i"
    and "\<not> rejects p sql_update
           [text_value (name b), int_value (quantity b), bool_value (purchased b), PText s]"
  shows "pool_query p sql_update
           [text_value (name b), int_value (quantity b), bool_value (purchased b), PText s] =
         (Inr (map ItemRow (map (set_clause (name b) (quantity b) (purchased b))
                 (select_by_id i (db p)))),
          p\<lparr>submitted := submitted p @
               [(sql_update,
                 [text_value (name b), int_value (quantity b), bool_value (purchased b), PText s])],
            db := (db p)\<lparr>shopping_items :=
               map (\<lambda>r. if id_col r = i then set_clause (name b) (quantity b) (purchased b) r
                        else r) (shopping_items (db p))\<rparr>\<rparr>)"
proof -
  from assms(2) have ok: "\<not> fails p sql_update
      [text_value (name b), int_value (quantity b), bool_value (purchased b), PText s]"
    and fits: "(case quantity b of None \<Rightarrow> True | Some n \<Rightarrow> int4 n)"
    by (auto simp: rejects_update split: option.splits)
  from assms(1) fits have "run_sql sql_update
      [text_value (name b), int_value (quantity b), bool_value (purchased b), PText s]
      (clock p) (db p) =
    Inr (map ItemRow (fst (update_rows (name b) (quantity b) (purchased b) i (db p))),
         snd (update_rows (name b) (quantity b) (purchased b) i (db p)))"
    by (simp add: run_update)
  from pool_query_executed [OF ok this] show ?thesis
    by (simp add: update_rows_def)
qed

lemma put_item_found:
  assumes "r \<in> set (shopping_items (db p))" "id_col r = i" "int4in s = Some i"
    and "\<not> rejects p sql_update
           [text_value (name b), int_value (quantity b), bool_value (purchased b), PText s]"
  shows "\<exists>r0 rs. select_by_id i (db p) = r0 # rs \<and> r0 \<in> set (shopping_items (db p)) \<and>
     id_col r0 = i \<and>
     fst (put_item s b p) =
       \<lparr>status = 200, body = JObj [(''success'', JBool True),
          (''data'', json_of_row (set_clause (name b) (quantity b) (purchased b) r0))]\<rparr>"
proof -
  from assms(1,2) have "r \<in> set (select_by_id i (db p))" by (simp add: select_by_id_def)
  then obtain r0 rs where sel: "select_by_id i (db p) = r0 # rs"
    by (cases "select_by_id i (db p)") auto
  then have "r0 \<in> set (select_by_id i (db p))" by simp
  then have r0: "r0 \<in> set (shopping_items (db p))" "id_col r0 = i"
    by (simp_all add: select_by_id_def)
  from sel have "fst (put_item s b p) =
       \<lparr>status = 200, body = JObj [(''success'', JBool True),
          (''data'', json_of_row (set_clause (name b) (quantity b) (purchased b) r0))]\<rparr>"
    by (simp add: put_item_def put_item_executed [OF assms(3,4)] res_json_def
        success_data_def first_row_def)
  with sel r0 show ?thesis by blast
qed

text \<open>
  Claim C7. An update leaves the table with as many rows as before, and in every row
  the id and \<^verbatim>\<open>created_at\<close> are what they were, as is each of \<^verbatim>\<open>name\<close>, \<^verbatim>\<open>quantity\<close>
  and \<^verbatim>\<open>purchased\<close> that the body does not supply. When a row with the id exists and
  the store executes the UPDATE, the answer is 200 and its data is the row as it is
  stored after the update, all five columns, at a position that held that id.
  (\<open>i\<close> is the id as the store reads the text \<open>s\<close> of the path.)
\<close>

theorem update_keeps_absent_fields:
  "length (shopping_items (db (snd (put_item s b p)))) = length (shopping_items (db p)) \<and>
   (\<forall>k < length (shopping_items (db p)).
      let old = shopping_items (db p) ! k; new = shopping_items (db (snd (put_item s b p))) ! k in
        id_col new = id_col old \<and> created_at_col new = created_at_col old \<and>
        (name b = None \<longrightarrow> name_col new = name_col old) \<and>
        (quantity b = None \<longrightarrow> quantity_col new = quantity_col old) \<and>
        (purchased b = None \<longrightarrow> purchased_col new = purchased_col old)) \<and>
   (int4in s = Some i \<and> (\<exists>r \<in> set (shopping_items (db p)). id_col r = i) \<and>
    \<not> rejects p sql_update
        [text_value (name b), int_value (quantity b), bool_value (purchased b), PText s] \<longrightarrow>
      status (fst (put_item s b p)) = 200 \<and>
      (\<exists>k < length (shopping_items (db p)). id_col (shopping_items (db p) ! k) = i \<and>
         body (fst (put_item s b p)) =
           JObj [(''success'', JBool True),
                 (''data'', json_of_row (shopping_items (db (snd (put_item s b p))) ! k))]))"
proof (intro conjI allI impI)
  show "length (shopping_items (db (snd (put_item s b p)))) = length (shopping_items (db p))"
    using put_item_table [of s b p] by auto
next
  fix k assume k: "k < length (shopping_items (db p))"
  show "let old = shopping_items (db p) ! k; new = shopping_items (db (snd (put_item s b p))) ! k in
        id_col new = id_col old \<and> created_at_col new = created_at_col old \<and>
        (name b = None \<longrightarrow> name_col new = name_col old) \<and>
        (quantity b = None \<longrightarrow> quantity_col new = quantity_col old) \<and>
        (purchased b = None \<longrightarrow> purchased_col new = purchased_col old)"
    using put_item_table [of s b p] k by (auto simp: Let_def set_clause_frame)
next
  assume a: "int4in s = Some i \<and> (\<exists>r \<in> set (shopping_items (db p)). id_col r = i) \<and>
    \<not> rejects p sql_update
        [text_value (name b), int_value (quantity b), bool_value (purchased b), PText s]"
  then obtain r where r: "r \<in> set (shopping_items (db p))" "id_col r = i" by blast
  from a have read: "int4in s = Some i"
    and ok: "\<not> rejects p sql_update
        [text_value (name b), int_value (quantity b), bool_value (purchased b), PText s]"
    by simp_all
  from put_item_found [OF r read ok] obtain r0 rs where
    r0: "r0 \<in> set (shopping_items (db p))" "id_col r0 = i" and
    resp: "fst (put_item s b p) =
       \<lparr>status = 200, body = JObj [(''success'', JBool True),
          (''data'', json_of_row (set_clause (name b) (quantity b) (purchased b) r0))]\<rparr>"
    by blast
  from resp show "status (fst (put_item s b p)) = 200" by simp
  from r0(1) obtain k where
    k: "k < length (shopping_items (db p))" "shopping_items (db p) ! k = r0"
    by (auto simp: in_set_conv_nth)
  have tab: "shopping_items (db (snd (put_item s b p))) =
     map (\<lambda>r. if id_col r = i then set_clause (name b) (quantity b) (purchased b) r else r)
       (shopping_items (db p))"
    by (simp add: put_item_def put_item_executed [OF read ok])
  from k r0(2) have "shopping_items (db (snd (put_item s b p))) ! k =
      set_clause (name b) (quantity b) (purchased b) r0"
    by (simp add: tab)
  with resp k r0(2)
  show "\<exists>k < length (shopping_items (db p)). id_col (shopping_items (db p) ! k) = i \<and>
         body (fst (put_item s b p)) =
           JObj [(''success'', JBool True),
                 (''data'', json_of_row (shopping_items (db (snd (put_item s b p))) ! k))]"
    by auto
qed

text \<open>Updating only \<^verbatim>\<open>purchased: true\<close> on the bread of the example.\<close>

theorem update_keeps_absent_fields_witness:
  "shopping_items (db (snd (put_item ''2'' \<lparr>name = None, quantity = None, purchased = Some True\<rparr>
      sample_pool))) = [milk, bread\<lparr>purchased_col := Some True\<rparr>] \<and>
   fst (put_item ''2'' \<lparr>name = None, quantity = None, purchased = Some True\<rparr> sample_pool) =
     \<lparr>status = 200, body = JObj [(''success'', JBool True),
        (''data'', JObj [(''id'', JNum 2), (''name'', JStr ''Bread''), (''quantity'', JNum 1),
                        (''purchased'', JBool True), (''created_at'', JDate 200)])]\<rparr>"
proof -
  have two: "int4in ''2'' = Some 2"
    by (simp add: int4in_defs)
  from update_keeps_absent_fields
    [of "''2''" "\<lparr>name = None, quantity = None, purchased = Some True\<rparr>" sample_pool 2]
  show ?thesis
    by (simp add: two handler_defs run_sql_simps store_defs example_defs json_of_row_def)
qed

subsection \<open>Listing the items\<close>

lemma mset_select_all: "mset (select_all d) = mset (shopping_items d)"
  by (simp add: select_all_def)

lemma order_key_le:
  "order_key a \<le> order_key b \<Longrightarrow>
     purchased_col a = Some False \<and> purchased_col b \<noteq> Some False \<or>
     purchased_col a = Some True \<and> purchased_col b = None \<or>
     purchased_col a = purchased_col b \<and>
       (case (created_at_col a, created_at_col b) of
          (None, _) \<Rightarrow> True
        | (Some t, None) \<Rightarrow> False
        | (Some t, Some u) \<Rightarrow> u \<le> t)"
  by (auto simp: order_key_def purchased_rank_def created_at_desc_def less_eq_prod_def
      split: option.splits bool.splits if_splits)

lemma sorted_select_all:
  "sorted_wrt (\<lambda>a b. order_key a \<le> order_key b) (select_all d)"
  using sorted_sort_key [of order_key "shopping_items d"]
  by (simp add: select_all_def sorted_map)

text \<open>
  Claim C5. When the store executes the SELECT, the list handler answers 200 with an
  array that holds every stored row exactly once (the same multiset of rows: nothing
  is left out, there are no pages), ordered so that of any two rows the earlier one is
  unpurchased and the later one is not, or they agree on \<^verbatim>\<open>purchased\<close> and the
  earlier one was created no earlier than the later one. (For the NULLs the columns
  admit: a NULL \<^verbatim>\<open>purchased\<close> comes after true and false, a NULL \<^verbatim>\<open>created_at\<close>
  first in its group.) The table is not changed.
\<close>

theorem list_is_complete_and_ordered:
  "\<not> rejects p sql_select_all [] \<Longrightarrow>
     (\<exists>rows.
        fst (get_items p) =
          \<lparr>status = 200,
            body = JObj [(''success'', JBool True), (''data'', JArr (map json_of_row rows))]\<rparr> \<and>
        mset rows = mset (shopping_items (db p)) \<and>
        sorted_wrt
          (\<lambda>a b. purchased_col a = Some False \<and> purchased_col b \<noteq> Some False \<or>
                 purchased_col a = Some True \<and> purchased_col b = None \<or>
                 purchased_col a = purchased_col b \<and>
                   (case (created_at_col a, created_at_col b) of
                      (None, _) \<Rightarrow> True
                    | (Some t, None) \<Rightarrow> False
                    | (Some t, Some u) \<Rightarrow> u \<le> t))
          rows) \<and>
     db (snd (get_items p)) = db p"
proof -
  assume "\<not> rejects p sql_select_all []"
  then have ok: "\<not> fails p sql_select_all []"
    by simp
  have "sorted_wrt
          (\<lambda>a b. purchased_col a = Some False \<and> purchased_col b \<noteq> Some False \<or>
                 purchased_col a = Some True \<and> purchased_col b = None \<or>
                 purchased_col a = purchased_col b \<and>
                   (case (created_at_col a, created_at_col b) of
                      (None, _) \<Rightarrow> True
                    | (Some t, None) \<Rightarrow> False
                    | (Some t, Some u) \<Rightarrow> u \<le> t))
          (select_all (db p))"
    by (rule sorted_wrt_mono_rel [OF _ sorted_select_all]) (rule order_key_le)
  moreover from ok have "fst (get_items p) =
      \<lparr>status = 200,
        body = JObj [(''success'', JBool True),
                     (''data'', JArr (map json_of_row (select_all (db p))))]\<rparr>"
    by (simp add: get_items_def pool_query_def run_select_all Let_def res_json_def
        success_data_def comp_def)
  moreover from ok have "db (snd (get_items p)) = db p"
    by (simp add: get_items_def pool_query_def run_select_all Let_def)
  ultimately show ?thesis
    using mset_select_all [of "db p"] by blast
qed

text \<open>Milk, created first and purchased since, is listed after the bread.\<close>

theorem list_is_complete_and_ordered_witness:
  "\<not> rejects sample_pool sql_select_all [] \<and>
   fst (get_items sample_pool) =
     \<lparr>status = 200,
       body = JObj [(''success'', JBool True),
                    (''data'', JArr [json_of_row bread, json_of_row milk])]\<rparr> \<and>
   db (snd (get_items sample_pool)) = db sample_pool"
  using list_is_complete_and_ordered [of sample_pool]
  by (simp add: handler_defs run_sql_simps store_defs example_defs order_key_def
      purchased_rank_def created_at_desc_def less_eq_prod_def json_of_row_def)

subsection \<open>\<^verbatim>\<open>parseInt\<close> reads a count back\<close>

lemma digit_of_digit_char: "k < 10 \<Longrightarrow> digit_of (digit_char k) = Some k"
  by (simp add: digit_of_def digit_char_def Let_def)

lemma digits_prefix_append:
  "\<forall>c\<in>set cs. \<exists>k<10. digit_of c = Some k \<Longrightarrow>
     digits_prefix 10 (cs @ ds) = digits_prefix 10 cs @ digits_prefix 10 ds"
  by (induction cs) auto

lemma decimal_digits: "\<forall>c\<in>set (decimal n). \<exists>k<10. digit_of c = Some k"
proof (induction n rule: decimal.induct)
  case (1 n)
  show ?case
  proof (cases "n < 10")
    case True
    then show ?thesis by (subst decimal.simps) (simp add: digit_of_digit_char)
  next
    case False
    with 1 show ?thesis by (subst decimal.simps) (auto simp: digit_of_digit_char)
  qed
qed

lemma digits_prefix_decimal:
  "digits_prefix 10 (decimal n) \<noteq> [] \<and>
   foldl (\<lambda>a k. a * 10 + k) 0 (digits_prefix 10 (decimal n)) = n"
proof (induction n rule: decimal.induct)
  case (1 n)
  show ?case
  proof (cases "n < 10")
    case True
    then show ?thesis by (subst (1 2) decimal.simps) (simp add: digit_of_digit_char)
  next
    case False
    with 1 show ?thesis
      by (subst (1 2) decimal.simps)
        (simp add: digits_prefix_append decimal_digits digit_of_digit_char)
  qed
qed

lemma decimal_nonempty: "decimal n \<noteq> []"
  by (subst decimal.simps) simp

lemma hd_decimal_plain:
  "\<not> is_white (hd (decimal n)) \<and> hd (decimal n) \<noteq> CHR ''-'' \<and> hd (decimal n) \<noteq> CHR ''+''"
proof -
  from decimal_digits [of n] decimal_nonempty [of n]
  obtain k where "k < 10" "digit_of (hd (decimal n)) = Some k"
    by (cases "decimal n") auto
  then show ?thesis
    by (auto simp: digit_of_def is_white_def Let_def split: if_splits)
qed

lemma strip_prefix_decimal: "strip_prefix (decimal n) = (10, decimal n)"
proof (cases "decimal n")
  case Nil
  then show ?thesis by (simp add: strip_prefix_def)
next
  case outer: (Cons a as)
  show ?thesis
  proof (cases as)
    case Nil
    with outer show ?thesis by (simp add: strip_prefix_def)
  next
    case (Cons b bs)
    from decimal_digits [of n] outer Cons
    obtain k where "k < 10" "digit_of b = Some k" by auto
    then have "b \<noteq> CHR ''x''" "b \<noteq> CHR ''X''"
      by (auto simp: digit_of_def Let_def split: if_splits)
    with outer Cons show ?thesis by (simp add: strip_prefix_def)
  qed
qed

lemma parseInt_decimal: "parseInt (decimal n) = Some (int n)"
proof -
  obtain c cs where d: "decimal n = c # cs"
    using decimal_nonempty [of n] by (cases "decimal n") auto
  with hd_decimal_plain [of n] have "\<not> is_white c" "c \<noteq> CHR ''-''" "c \<noteq> CHR ''+''"
    by auto
  then have "strip_sign (dropWhile is_white (decimal n)) = (1, decimal n)"
    by (simp add: d strip_sign_def)
  then show ?thesis
    using digits_prefix_decimal [of n]
    by (simp add: parseInt_def strip_prefix_decimal)
qed

text \<open>
  The store reads the decimal digits of a number in the INTEGER range as that number: a
  number bound as a parameter and the text of its digits in the path are the same to
  it, and every id the sequence gives out has a text.
\<close>

lemma scan_int_digits:
  "\<forall>c\<in>set cs. \<exists>k<10. digit_of c = Some k \<Longrightarrow> cs \<noteq> [] \<Longrightarrow>
     scan_int 10 first acc cs =
       Some (foldl (\<lambda>a k. a * 10 + k) acc (digits_prefix 10 cs), False, [])"
proof (induction cs arbitrary: first acc)
  case Nil
  then show ?case by simp
next
  case (Cons c cs)
  then obtain k where k: "k < 10" "digit_of c = Some k" by auto
  show ?case
  proof (cases cs)
    case Nil
    with k show ?thesis by (simp add: radix_digit_def)
  next
    case (Cons d ds)
    with Cons.prems have "scan_int 10 False (acc * 10 + k) cs =
        Some (foldl (\<lambda>a k. a * 10 + k) (acc * 10 + k) (digits_prefix 10 cs), False, [])"
      by (intro Cons.IH) auto
    with k show ?thesis by (simp add: radix_digit_def)
  qed
qed

lemma strip_radix_decimal: "strip_radix (decimal n) = (10, decimal n)"
proof (cases "decimal n")
  case Nil
  then show ?thesis by (simp add: strip_radix_def)
next
  case outer: (Cons a as)
  show ?thesis
  proof (cases as)
    case Nil
    with outer show ?thesis by (simp add: strip_radix_def)
  next
    case (Cons b bs)
    from decimal_digits [of n] outer Cons
    obtain k where "k < 10" "digit_of b = Some k" by auto
    then have "b \<notin> {CHR ''x'', CHR ''X'', CHR ''o'', CHR ''O'', CHR ''b'', CHR ''B''}"
      by (auto simp: digit_of_def Let_def split: if_splits)
    with outer Cons show ?thesis by (simp add: strip_radix_def)
  qed
qed

lemma int4in_decimal:
  "int4in (decimal n) = (if int4 (int n) then Some (int n) else None)"
proof -
  obtain c cs where d: "decimal n = c # cs"
    using decimal_nonempty [of n] by (cases "decimal n") auto
  with hd_decimal_plain [of n] have "\<not> is_white c" "c \<noteq> CHR ''-''" "c \<noteq> CHR ''+''"
    by auto
  then have "strip_minus (dropWhile is_white (decimal n)) = (False, decimal n)"
    by (simp add: d strip_minus_def)
  moreover have "scan_int 10 True 0 (decimal n) = Some (n, False, [])"
    using scan_int_digits [OF decimal_digits decimal_nonempty, where first = True and acc = 0]
      digits_prefix_decimal [of n]
    by simp
  ultimately show ?thesis
    by (simp add: int4in_def strip_radix_decimal)
qed

lemma int_param_decimal: "0 \<le> i \<Longrightarrow> int_param (PText (decimal (nat i))) = int_param (PInt i)"
  by (simp add: int4in_decimal)

subsection \<open>What holds of every table the service can bring about\<close>

lemma snd_get_items: "snd (get_items p) = snd (pool_query p sql_select_all [])"
  by (simp add: get_items_def split: prod.splits sum.splits)

lemma snd_get_item: "snd (get_item i p) = snd (pool_query p sql_select_by_id [PText i])"
  by (simp add: get_item_def split: prod.splits sum.splits)

lemma snd_post_items:
  "snd (post_items b p) =
     (if not_name (name b) then p
      else snd (pool_query p sql_insert [text_value (name b), PInt (qty (quantity b))]))"
  by (simp add: post_items_def split: prod.splits sum.splits)

lemma snd_put_item:
  "snd (put_item i b p) =
     snd (pool_query p sql_update
       [text_value (name b), int_value (quantity b), bool_value (purchased b), PText i])"
  by (simp add: put_item_def split: prod.splits sum.splits)

lemma snd_delete_item: "snd (delete_item i p) = snd (pool_query p sql_delete [PText i])"
  by (simp add: delete_item_def split: prod.splits sum.splits)

lemma snd_get_stats:
  "snd (get_stats ws1 ws2 p) =
     (let p1 = snd (pool_query p sql_count_total []) in
      case fst (pool_query p sql_count_total []) of
        Inl e \<Rightarrow> p1
      | Inr t \<Rightarrow>
          (let p2 = snd (pool_query (others ws1 p1) sql_count_purchased []) in
           case fst (pool_query (others ws1 p1) sql_count_purchased []) of
             Inl e \<Rightarrow> p2
           | Inr u \<Rightarrow> snd (pool_query (others ws2 p2) sql_count_pending [])))"
  by (simp add: get_stats_def Let_def split: prod.splits sum.splits option.splits)

lemma others_simps [simp]:
  "others [] p = p"
  "others (w # ws) p = others ws (perform w p)"
  by (simp_all add: others_def)

lemma perform_fails [simp]: "fails (perform w p) = fails p"
  by (cases w) (simp_all add: snd_post_items snd_put_item snd_delete_item)

lemma others_fails [simp]: "fails (others ws p) = fails p"
  by (induction ws arbitrary: p) simp_all

lemma perform_preserves:
  assumes step: "\<And>d d'. effect d d' \<Longrightarrow> I d \<Longrightarrow> I d'" and init: "I (db p)"
  shows "I (db (perform w p))"
proof -
  have q: "I (db (snd (pool_query p sql ps)))" for sql ps
    using step [OF pool_query_effect init] .
  show ?thesis
  proof (cases w)
    case (Create b)
    show ?thesis unfolding Create perform.simps snd_post_items
      by (cases "not_name (name b)") (simp_all only: if_True if_False init q)
  next
    case (Update i b)
    show ?thesis unfolding Update perform.simps snd_put_item by (rule q)
  next
    case (Delete i)
    show ?thesis unfolding Delete perform.simps snd_delete_item by (rule q)
  qed
qed

lemma others_preserves:
  assumes step: "\<And>d d'. effect d d' \<Longrightarrow> I d \<Longrightarrow> I d'"
  shows "I (db p) \<Longrightarrow> I (db (others ws p))"
proof (induction ws arbitrary: p)
  case Nil
  then show ?case by simp
next
  case (Cons w ws)
  have "I (db (perform w p))"
    using step Cons.prems by (rule perform_preserves [where I = I])
  then show ?case
    unfolding others_simps by (rule Cons.IH)
qed

lemma handle_preserves:
  assumes step: "\<And>d d'. effect d d' \<Longrightarrow> I d \<Longrightarrow> I d'" and init: "I (db p)"
  shows "I (db (snd (handle now r p)))"
proof -
  have q: "I (db (snd (pool_query p' sql ps)))" if "I (db p')" for p' sql ps
    using step [OF pool_query_effect that] .
  show ?thesis
  proof (cases r)
    case GET_health
    show ?thesis unfolding GET_health handle.simps snd_conv by (rule init)
  next
    case GET_items
    show ?thesis unfolding GET_items handle.simps snd_get_items by (rule q [OF init])
  next
    case (GET_item i)
    show ?thesis unfolding GET_item handle.simps snd_get_item by (rule q [OF init])
  next
    case (POST_items b)
    show ?thesis unfolding POST_items handle.simps snd_post_items
      by (cases "not_name (name b)") (simp_all only: if_True if_False init q [OF init])
  next
    case (PUT_item i b)
    show ?thesis unfolding PUT_item handle.simps snd_put_item by (rule q [OF init])
  next
    case (DELETE_item i)
    show ?thesis unfolding DELETE_item handle.simps snd_delete_item by (rule q [OF init])
  next
    case GET_stats
    have 1: "I (db (snd (pool_query p sql_count_total [])))" by (rule q [OF init])
    have 2: "I (db (snd (pool_query (snd (pool_query p sql_count_total [])) sql_count_purchased [])))"
      by (rule q [OF 1])
    have 3: "I (db (snd (pool_query (snd (pool_query (snd (pool_query p sql_count_total []))
       sql_count_purchased [])) sql_count_pending [])))"
      by (rule q [OF 2])
    show ?thesis unfolding GET_stats handle.simps snd_get_stats Let_def others_simps
      using 1 2 3 by (simp only: split: sum.splits) blast
  qed
qed

lemma reachable_invariant:
  assumes "reachable d" and "I (initDB None)"
    and "\<And>d d'. effect d d' \<Longrightarrow> I d \<Longrightarrow> I d'"
  shows "I d"
  using assms(1)
proof (induction rule: reachable.induct)
  case start
  show ?case by (rule assms(2))
next
  case (request p now r)
  show ?case by (rule handle_preserves [where I = I, OF assms(3) request.IH])
qed

lemma effect_purchased_not_null:
  assumes "effect d d'" and "\<forall>r\<in>set (shopping_items d). purchased_col r \<noteq> None"
  shows "\<forall>r\<in>set (shopping_items d'). purchased_col r \<noteq> None"
  using assms
  by (induction rule: effect.induct)
    (auto simp: insert_row_def update_rows_def delete_rows_def set_clause_def Let_def
      split: option.splits if_splits)

lemma reachable_purchased_not_null:
  "reachable d \<Longrightarrow> \<forall>r\<in>set (shopping_items d). purchased_col r \<noteq> None"
  by (rule reachable_invariant [where I = "\<lambda>d. \<forall>r\<in>set (shopping_items d). purchased_col r \<noteq> None"])
    (auto simp: initDB_def dest: effect_purchased_not_null)

text \<open>
  The ids of the rows are distinct and below the sequence, as the PRIMARY KEY asks: the
  INSERT never meets an id that is taken, and an id of the path names at most one row.
\<close>

lemma effect_ids:
  assumes "effect d d'"
    and "distinct (map id_col (shopping_items d)) \<and>
         (\<forall>r\<in>set (shopping_items d). id_col r < shopping_items_id_seq d)"
  shows "distinct (map id_col (shopping_items d')) \<and>
         (\<forall>r\<in>set (shopping_items d'). id_col r < shopping_items_id_seq d')"
  using assms
proof (induction rule: effect.induct)
  case (same d)
  then show ?case by simp
next
  case (inserted d nm q now)
  then show ?case by (fastforce simp: insert_row_def Let_def)
next
  case (updated d nm q b i)
  have "id_col \<circ> (\<lambda>r. if id_col r = i then set_clause nm q b r else r) = id_col"
    by (auto simp: set_clause_def)
  with updated show ?case
    by (auto simp: update_rows_def set_clause_def)
next
  case (deleted d i)
  then show ?case by (auto simp: delete_rows_def distinct_map_filter)
qed

lemma reachable_ids:
  "reachable d \<Longrightarrow>
     distinct (map id_col (shopping_items d)) \<and>
     (\<forall>r\<in>set (shopping_items d). id_col r < shopping_items_id_seq d)"
  by (rule reachable_invariant
        [where I = "\<lambda>d. distinct (map id_col (shopping_items d)) \<and>
           (\<forall>r\<in>set (shopping_items d). id_col r < shopping_items_id_seq d)"])
    (simp_all add: initDB_def effect_ids)

lemma count_purchased_pending:
  "\<forall>r\<in>set rs. purchased_col r \<noteq> None \<Longrightarrow>
     length rs = length (filter (\<lambda>r. purchased_col r = Some True) rs) +
                 length (filter (\<lambda>r. purchased_col r = Some False) rs)"
  by (induction rs) auto

text \<open>The table of the example is one the service brings about.\<close>

lemma run_insert_value:
  "run_sql sql_insert [text_value (Some nm), PInt q] now d =
     (if int4 q
      then Inr ([ItemRow (fst (insert_row nm (Some q) now d))],
                snd (insert_row nm (Some q) now d))
      else Inl BindError)"
  by (simp add: text_value_def run_insert)

lemma reachable_sample: "reachable (db sample_pool)"
proof -
  let ?b1 = "\<lparr>name = Some ''Milk'', quantity = Some 2, purchased = None\<rparr>"
  let ?b2 = "\<lparr>name = Some ''Bread'', quantity = None, purchased = None\<rparr>"
  let ?b3 = "\<lparr>name = None, quantity = None, purchased = Some True\<rparr>"
  let ?p1 = "snd (handle 0 (POST_items ?b1) fresh_pool)"
  let ?p2 = "snd (handle 0 (POST_items ?b2) (?p1\<lparr>clock := 200\<rparr>))"
  let ?p3 = "snd (handle 0 (PUT_item ''1'' ?b3) ?p2)"
  have "reachable (db fresh_pool)"
    using reachable.start by (simp add: fresh_pool_def)
  then have "reachable (db ?p1)"
    by (rule reachable.request)
  then have "reachable (db (?p1\<lparr>clock := 200\<rparr>))"
    by simp
  then have "reachable (db ?p2)"
    by (rule reachable.request)
  then have "reachable (db ?p3)"
    by (rule reachable.request)
  moreover have "db ?p3 = db sample_pool"
    by (simp add: handler_defs run_insert_value run_sql_simps store_defs example_defs
        int4in_defs)
  ultimately show ?thesis by simp
qed

subsection \<open>Statistics\<close>

lemma pool_query_count:
  "\<not> fails p sql_count_total [] \<Longrightarrow>
     fst (pool_query p sql_count_total []) = Inr (count_rows ''total'' (\<lambda>r. True) (db p))"
  "\<not> fails p sql_count_purchased [] \<Longrightarrow>
     fst (pool_query p sql_count_purchased []) =
       Inr (count_rows ''purchased'' (\<lambda>r. purchased_col r = Some True) (db p))"
  "\<not> fails p sql_count_pending [] \<Longrightarrow>
     fst (pool_query p sql_count_pending []) =
       Inr (count_rows ''pending'' (\<lambda>r. purchased_col r = Some False) (db p))"
  by (simp_all add: pool_query_def Let_def run_sql_simps)

lemma pool_query_count_db [simp]:
  "db (snd (pool_query p sql_count_total [])) = db p"
  "db (snd (pool_query p sql_count_purchased [])) = db p"
  "db (snd (pool_query p sql_count_pending [])) = db p"
  by (simp_all add: pool_query_def Let_def run_sql_simps)

lemma get_stats_answer:
  assumes "\<not> fails p sql_count_total []"
    and "\<not> fails p sql_count_purchased []"
    and "\<not> fails p sql_count_pending []"
  shows "let p1 = others ws1 (snd (pool_query p sql_count_total []));
             p2 = others ws2 (snd (pool_query p1 sql_count_purchased []))
         in fst (get_stats ws1 ws2 p) =
              \<lparr>status = 200,
                body = JObj [(''success'', JBool True),
                  (''data'', JObj
                     [(''total'', JNum (int (length (shopping_items (db p))))),
                      (''purchased'', JNum (int (length
                         (filter (\<lambda>r. purchased_col r = Some True) (shopping_items (db p1)))))),
                      (''pending'', JNum (int (length
                         (filter (\<lambda>r. purchased_col r = Some False)
                            (shopping_items (db p2))))))])]\<rparr>"
proof -
  let ?p1 = "others ws1 (snd (pool_query p sql_count_total []))"
  let ?p2 = "others ws2 (snd (pool_query ?p1 sql_count_purchased []))"
  have 1: "fst (pool_query p sql_count_total []) =
      Inr (count_rows ''total'' (\<lambda>r. True) (db p))"
    using assms(1) by (rule pool_query_count)
  have 2: "fst (pool_query ?p1 sql_count_purchased []) =
      Inr (count_rows ''purchased'' (\<lambda>r. purchased_col r = Some True) (db ?p1))"
    using assms(2) by (intro pool_query_count) simp
  have 3: "fst (pool_query ?p2 sql_count_pending []) =
      Inr (count_rows ''pending'' (\<lambda>r. purchased_col r = Some False) (db ?p2))"
    using assms(3) by (intro pool_query_count) simp
  show ?thesis
    by (simp add: get_stats_def split_beta 1 2 3 count_rows_def stats_json_def
        parseInt_decimal res_json_def success_data_def Let_def)
qed

text \<open>
  Claim C8, as stated, fails: the three COUNTs are three statements, and the store
  executes other requests' statements between them. On the table of the example, which
  requests bring about, a create that is executed after the first COUNT is missing from
  \<^verbatim>\<open>total\<close> and present in \<^verbatim>\<open>pending\<close>: the answer is total 2, purchased 1,
  pending 2.
\<close>

theorem stats_counts_torn_by_create:
  "reachable (db sample_pool) \<and>
   fst (get_stats [Create eggs] [] sample_pool) =
     \<lparr>status = 200,
       body = JObj [(''success'', JBool True),
                    (''data'', JObj [(''total'', JNum 2), (''purchased'', JNum 1),
                                    (''pending'', JNum 2)])]\<rparr>"
proof -
  have "fst (get_stats [Create eggs] [] sample_pool) =
     \<lparr>status = 200,
       body = JObj [(''success'', JBool True),
                    (''data'', JObj [(''total'', JNum 2), (''purchased'', JNum 1),
                                    (''pending'', JNum 2)])]\<rparr>"
    using get_stats_answer [of sample_pool "[Create eggs]" "[]"]
    by (simp add: snd_post_items pool_query_def Let_def run_sql_simps run_insert_value
        store_defs example_defs not_name_def qty_def int4_def)
  with reachable_sample show ?thesis by simp
qed

text \<open>
  Claim C8, amended. On every table the service can bring about, when the store
  executes the three COUNT statements the statistics handler answers 200 with
  \<^verbatim>\<open>total\<close> the number of rows at the first COUNT, \<^verbatim>\<open>purchased\<close> the number of rows
  whose \<^verbatim>\<open>purchased\<close> is true at the second and \<^verbatim>\<open>pending\<close> the number of rows whose
  \<^verbatim>\<open>purchased\<close> is false at the third; and total = purchased + pending whenever the
  table at the second and at the third COUNT is the table at the first, that is, no
  write of another request has changed it between them.
\<close>

theorem stats_counts_add_up_without_writes:
  assumes "reachable (db p)"
    and "\<not> rejects p sql_count_total []"
    and "\<not> rejects p sql_count_purchased []"
    and "\<not> rejects p sql_count_pending []"
  shows "let at_first = shopping_items (db p);
             p1 = others ws1 (snd (pool_query p sql_count_total []));
             at_second = shopping_items (db p1);
             p2 = others ws2 (snd (pool_query p1 sql_count_purchased []));
             at_third = shopping_items (db p2);
             n_total = length at_first;
             n_purchased = length (filter (\<lambda>r. purchased_col r = Some True) at_second);
             n_pending = length (filter (\<lambda>r. purchased_col r = Some False) at_third)
         in fst (get_stats ws1 ws2 p) =
              \<lparr>status = 200,
                body = JObj [(''success'', JBool True),
                             (''data'', JObj [(''total'', JNum (int n_total)),
                                             (''purchased'', JNum (int n_purchased)),
                                             (''pending'', JNum (int n_pending))])]\<rparr> \<and>
            (at_second = at_first \<and> at_third = at_first \<longrightarrow>
               n_total = n_purchased + n_pending)"
proof -
  from assms(2-4) have ok: "\<not> fails p sql_count_total []"
    "\<not> fails p sql_count_purchased []" "\<not> fails p sql_count_pending []"
    by simp_all
  have "length (shopping_items (db p)) =
      length (filter (\<lambda>r. purchased_col r = Some True) (shopping_items (db p))) +
      length (filter (\<lambda>r. purchased_col r = Some False) (shopping_items (db p)))"
    by (rule count_purchased_pending) (rule reachable_purchased_not_null [OF assms(1)])
  with get_stats_answer [OF ok, of ws1 ws2] show ?thesis
    by (simp add: Let_def)
qed

text \<open>With no write between the COUNTs, and with one that changes nothing.\<close>

theorem stats_counts_add_up_without_writes_witness:
  "reachable (db sample_pool) \<and>
   fst (get_stats [] [] sample_pool) =
     \<lparr>status = 200,
       body = JObj [(''success'', JBool True),
                    (''data'', JObj [(''total'', JNum 2), (''purchased'', JNum 1),
                                    (''pending'', JNum 1)])]\<rparr> \<and>
   fst (get_stats [Delete ''7''] [Update ''abc'' eggs] sample_pool) =
     \<lparr>status = 200,
       body = JObj [(''success'', JBool True),
                    (''data'', JObj [(''total'', JNum 2), (''purchased'', JNum 1),
                                    (''pending'', JNum 1)])]\<rparr>"
  using stats_counts_add_up_without_writes [OF reachable_sample, of "[]" "[]"]
    stats_counts_add_up_without_writes
      [OF reachable_sample, of "[Delete ''7'']" "[Update ''abc'' eggs]"]
    reachable_sample
  by (simp add: Let_def snd_put_item snd_delete_item pool_query_def run_sql_simps
      int4in_defs store_defs example_defs)

subsection \<open>The SQL texts\<close>

lemma submitted_get_stats:
  "\<exists>new. submitted (snd (get_stats [] [] p)) = submitted p @ new \<and>
     prefix (map fst new) [sql_count_total, sql_count_purchased, sql_count_pending]"
proof -
  let ?p1 = "snd (pool_query p sql_count_total [])"
  let ?p2 = "snd (pool_query ?p1 sql_count_purchased [])"
  let ?p3 = "snd (pool_query ?p2 sql_count_pending [])"
  have 1: "submitted ?p1 = submitted p @ [(sql_count_total, [])]"
    by (simp add: pool_query_submitted)
  have 2: "submitted ?p2 = submitted p @ [(sql_count_total, []), (sql_count_purchased, [])]"
    by (simp add: pool_query_submitted)
  have 3: "submitted ?p3 =
      submitted p @ [(sql_count_total, []), (sql_count_purchased, []), (sql_count_pending, [])]"
    by (simp add: pool_query_submitted)
  have "snd (get_stats [] [] p) = ?p1 \<or> snd (get_stats [] [] p) = ?p2 \<or>
      snd (get_stats [] [] p) = ?p3"
    by (simp add: snd_get_stats Let_def split: sum.splits)
  then show ?thesis
  proof (elim disjE)
    assume "snd (get_stats [] [] p) = ?p1"
    with 1 show ?thesis by (intro exI [of _ "[(sql_count_total, [])]"]) simp
  next
    assume "snd (get_stats [] [] p) = ?p2"
    with 2 show ?thesis
      by (intro exI [of _ "[(sql_count_total, []), (sql_count_purchased, [])]"]) simp
  next
    assume "snd (get_stats [] [] p) = ?p3"
    with 3 show ?thesis
      by (intro exI [of _ "[(sql_count_total, []), (sql_count_purchased, []),
            (sql_count_pending, [])]"]) simp
  qed
qed

text \<open>
  Claim C2. Whatever the request, the handler adds to the statements submitted so far
  only texts of its route's fixed list, in the list's order (a handler that stops early
  submits a prefix of it). The list depends on the route alone: path parameters and
  body fields reach the store in the parameter lists and never in a text.
\<close>

theorem sql_text_is_fixed_by_route:
  "\<exists>new. submitted (snd (handle now r p)) = submitted p @ new \<and>
     prefix (map fst new) (statements (route_of r))"
proof (cases r)
  case GET_health
  then show ?thesis by simp
next
  case GET_items
  then show ?thesis by (simp add: snd_get_items pool_query_submitted)
next
  case (GET_item i)
  then show ?thesis by (simp add: snd_get_item pool_query_submitted)
next
  case (POST_items b)
  then show ?thesis by (simp add: snd_post_items pool_query_submitted)
next
  case (PUT_item i b)
  then show ?thesis by (simp add: snd_put_item pool_query_submitted)
next
  case (DELETE_item i)
  then show ?thesis by (simp add: snd_delete_item pool_query_submitted)
next
  case GET_stats
  then show ?thesis using submitted_get_stats [of p] by simp
qed

text \<open>A name that tries to end the statement is a parameter like any other.\<close>

theorem sql_text_is_fixed_by_route_witness:
  "submitted (snd (handle 0
      (PUT_item ''2'' \<lparr>name = Some ''x'; DROP TABLE shopping_items; --'', quantity = None,
                      purchased = None\<rparr>) sample_pool)) =
     [(sql_update, [PText ''x'; DROP TABLE shopping_items; --'', PNull, PNull, PText ''2''])] \<and>
   map fst (submitted (snd (handle 0 GET_stats sample_pool))) =
     [sql_count_total, sql_count_purchased, sql_count_pending]"
  using sql_text_is_fixed_by_route
      [of 0 "PUT_item ''2'' \<lparr>name = Some ''x'; DROP TABLE shopping_items; --'',
                             quantity = None, purchased = None\<rparr>" sample_pool]
    sql_text_is_fixed_by_route [of 0 GET_stats sample_pool]
  by (simp add: snd_put_item snd_get_stats pool_query_submitted Let_def value_defs
      pool_query_def run_sql_simps example_defs split: sum.splits)

subsection \<open>The envelope\<close>

lemma pool_query_insert_rows:
  "pool_query p sql_insert [text_value (Some nm), PInt q] = (Inr rows, p') \<Longrightarrow>
     \<exists>r. rows = [ItemRow r]"
  by (auto simp: pool_query_def Let_def run_insert_value split: if_splits)

lemma envelope_get_items:
  "fst (get_items p) = res_json 500 (failure ''Error fetching items'') \<or>
   (\<exists>x. fst (get_items p) = res_json 200 (success_data (Some x)))"
  by (auto simp: get_items_def split: prod.splits sum.splits)

lemma envelope_get_item:
  "fst (get_item i p) = res_json 500 (failure ''Error fetching item'') \<or>
   fst (get_item i p) = res_json 404 (failure ''Item not found'') \<or>
   (\<exists>x. fst (get_item i p) = res_json 200 (success_data (Some x)))"
  by (auto simp: get_item_def first_row_def split: prod.splits sum.splits list.splits)

lemma envelope_post_items:
  "fst (post_items b p) = res_json 500 (failure ''Error creating item'') \<or>
   fst (post_items b p) = res_json 400 (failure ''Item name is required'') \<or>
   (\<exists>x. fst (post_items b p) = res_json 201 (success_data (Some x)))"
proof (cases "name b")
  case None
  then show ?thesis by (simp add: post_items_def not_name_def)
next
  case (Some nm)
  then show ?thesis
    by (auto simp: post_items_def first_row_def split: prod.splits sum.splits list.splits
        dest: pool_query_insert_rows)
qed

lemma envelope_put_item:
  "fst (put_item i b p) = res_json 500 (failure ''Error updating item'') \<or>
   fst (put_item i b p) = res_json 404 (failure ''Item not found'') \<or>
   (\<exists>x. fst (put_item i b p) = res_json 200 (success_data (Some x)))"
  by (auto simp: put_item_def first_row_def split: prod.splits sum.splits list.splits)

lemma envelope_delete_item:
  "fst (delete_item i p) = res_json 500 (failure ''Error deleting item'') \<or>
   fst (delete_item i p) = res_json 404 (failure ''Item not found'') \<or>
   fst (delete_item i p) =
     res_json 200 (JObj [(''success'', JBool True), (''message'', JStr ''Item deleted'')])"
  by (auto simp: delete_item_def split: prod.splits sum.splits)

lemma envelope_get_stats:
  "fst (get_stats ws1 ws2 p) = res_json 500 (failure ''Error fetching stats'') \<or>
   (\<exists>x. fst (get_stats ws1 ws2 p) = res_json 200 (success_data (Some x)))"
  by (auto simp: get_stats_def split: prod.splits sum.splits option.splits)

lemma success_data_envelope:
  "enveloped (success_data (Some x))"
  "member (success_data (Some x)) ''success'' = Some (JBool True)"
  "has_member (success_data (Some x)) ''data''"
  by (simp_all add: success_data_def enveloped_def has_member_def)

text \<open>
  Claim C9, as stated, fails on \<^verbatim>\<open>GET /health\<close>: its answer has neither a
  \<^verbatim>\<open>success\<close> flag nor a \<^verbatim>\<open>data\<close>, \<^verbatim>\<open>error\<close> or \<^verbatim>\<open>message\<close> member.
\<close>

theorem health_is_not_enveloped:
  "status (fst (handle 0 GET_health fresh_pool)) = 200 \<and>
   \<not> enveloped (body (fst (handle 0 GET_health fresh_pool)))"
  by (simp add: get_health_def res_json_def enveloped_def has_member_def)

text \<open>
  Claim C9, amended. Every successful answer (a status from 200 to 299) of a route
  other than \<^verbatim>\<open>GET /health\<close> is in the envelope: an object with the \<^verbatim>\<open>success\<close>
  flag, which is true, and beside it a \<^verbatim>\<open>data\<close> member, or for DELETE the
  \<^verbatim>\<open>message\<close> member; this holds of the statistics also when other requests write
  between its statements. \<^verbatim>\<open>GET /health\<close> answers 200 with the object of the two
  members \<^verbatim>\<open>status\<close> and \<^verbatim>\<open>timestamp\<close>, outside the envelope.
\<close>

theorem api_successes_are_enveloped:
  "(route_of r \<noteq> Health \<and>
    200 \<le> status (fst (handle now r p)) \<and> status (fst (handle now r p)) < 300 \<longrightarrow>
      enveloped (body (fst (handle now r p))) \<and>
      member (body (fst (handle now r p))) ''success'' = Some (JBool True) \<and>
      (if route_of r = DeleteItem
       then member (body (fst (handle now r p))) ''message'' = Some (JStr ''Item deleted'')
       else has_member (body (fst (handle now r p))) ''data'')) \<and>
   (200 \<le> status (fst (get_stats ws1 ws2 p)) \<and> status (fst (get_stats ws1 ws2 p)) < 300 \<longrightarrow>
      enveloped (body (fst (get_stats ws1 ws2 p))) \<and>
      member (body (fst (get_stats ws1 ws2 p))) ''success'' = Some (JBool True) \<and>
      has_member (body (fst (get_stats ws1 ws2 p))) ''data'') \<and>
   fst (handle now GET_health p) =
     \<lparr>status = 200, body = JObj [(''status'', JStr ''ok''), (''timestamp'', JDate now)]\<rparr>"
proof -
  have health: "fst (handle now GET_health p) =
     \<lparr>status = 200, body = JObj [(''status'', JStr ''ok''), (''timestamp'', JDate now)]\<rparr>"
    by (simp add: get_health_def res_json_def)
  have stats: "enveloped (body (fst (get_stats ws1 ws2 p))) \<and>
      member (body (fst (get_stats ws1 ws2 p))) ''success'' = Some (JBool True) \<and>
      has_member (body (fst (get_stats ws1 ws2 p))) ''data''"
    if "200 \<le> status (fst (get_stats ws1 ws2 p)) \<and> status (fst (get_stats ws1 ws2 p)) < 300"
    using that envelope_get_stats [of ws1 ws2 p]
    by (auto simp: res_json_def success_data_envelope)
  have routes: "enveloped (body (fst (handle now r p))) \<and>
      member (body (fst (handle now r p))) ''success'' = Some (JBool True) \<and>
      (if route_of r = DeleteItem
       then member (body (fst (handle now r p))) ''message'' = Some (JStr ''Item deleted'')
       else has_member (body (fst (handle now r p))) ''data'')"
    if api: "route_of r \<noteq> Health \<and>
      200 \<le> status (fst (handle now r p)) \<and> status (fst (handle now r p)) < 300"
  proof (cases r)
    case GET_health
    with api show ?thesis by simp
  next
    case GET_items
    with api envelope_get_items [of p] show ?thesis
      by (auto simp: res_json_def success_data_envelope)
  next
    case (GET_item i)
    with api envelope_get_item [of i p] show ?thesis
      by (auto simp: res_json_def success_data_envelope)
  next
    case (POST_items b)
    with api envelope_post_items [of b p] show ?thesis
      by (auto simp: res_json_def success_data_envelope)
  next
    case (PUT_item i b)
    with api envelope_put_item [of i b p] show ?thesis
      by (auto simp: res_json_def success_data_envelope)
  next
    case (DELETE_item i)
    with api envelope_delete_item [of i p] show ?thesis
      by (auto simp: res_json_def enveloped_def has_member_def)
  next
    case GET_stats
    with api envelope_get_stats [of "[]" "[]" p] show ?thesis
      by (auto simp: res_json_def success_data_envelope)
  qed
  from health stats routes show ?thesis
    by blast
qed

theorem api_successes_are_enveloped_witness:
  "fst (handle 0 (DELETE_item ''1'') sample_pool) =
     \<lparr>status = 200,
       body = JObj [(''success'', JBool True), (''message'', JStr ''Item deleted'')]\<rparr> \<and>
   enveloped (body (fst (handle 0 (DELETE_item ''1'') sample_pool))) \<and>
   status (fst (handle 0 (GET_item ''2'') sample_pool)) = 200 \<and>
   member (body (fst (handle 0 (GET_item ''2'') sample_pool))) ''data'' =
     Some (json_of_row bread) \<and>
   enveloped (body (fst (handle 0 (GET_item ''2'') sample_pool)))"
  using api_successes_are_enveloped [of "DELETE_item ''1''" 0 sample_pool "[]" "[]"]
    api_successes_are_enveloped [of "GET_item ''2''" 0 sample_pool "[]" "[]"]
  by (simp add: handler_defs run_sql_simps store_defs example_defs int4in_defs
      json_of_row_def enveloped_def has_member_def)

subsection \<open>The quantity of a stored item\<close>

text \<open>
  Claim C1 says that no write stores a quantity below 1. The create handler replaces
  such a quantity by 1 (\<open>qty\<close>), but the update handler binds the body's quantity as
  it comes: on the table of the example, which requests bring about,
  \<^verbatim>\<open>PUT /api/items/2\<close> with \<^verbatim>\<open>{"quantity": -5}\<close> is answered with 200 and the bread is
  stored with quantity -5; the table after it is again one that requests bring about.
\<close>

theorem update_stores_nonpositive_quantity:
  "reachable (db sample_pool) \<and>
   reachable (db (snd (handle 0
      (PUT_item ''2'' \<lparr>name = None, quantity = Some (- 5), purchased = None\<rparr>) sample_pool))) \<and>
   status (fst (handle 0
      (PUT_item ''2'' \<lparr>name = None, quantity = Some (- 5), purchased = None\<rparr>) sample_pool)) = 200 \<and>
   map quantity_col (shopping_items (db (snd (handle 0
      (PUT_item ''2'' \<lparr>name = None, quantity = Some (- 5), purchased = None\<rparr>) sample_pool)))) =
     [Some 2, Some (- 5)]"
proof -
  have "reachable (db (snd (handle 0
      (PUT_item ''2'' \<lparr>name = None, quantity = Some (- 5), purchased = None\<rparr>) sample_pool)))"
    using reachable_sample by (rule reachable.request)
  moreover have "status (fst (handle 0
      (PUT_item ''2'' \<lparr>name = None, quantity = Some (- 5), purchased = None\<rparr>) sample_pool)) = 200"
    by (simp add: handler_defs run_sql_simps store_defs example_defs int4in_defs)
  moreover have "map quantity_col (shopping_items (db (snd (handle 0
      (PUT_item ''2'' \<lparr>name = None, quantity = Some (- 5), purchased = None\<rparr>) sample_pool)))) =
     [Some 2, Some (- 5)]"
    by (simp add: handler_defs run_sql_simps store_defs example_defs int4in_defs)
  ultimately show ?thesis using reachable_sample by simp
qed

end
